theory Spec2Isabelle
  imports Main
begin

section \<open>JavaScript values, errors and completions\<close>

text \<open>
  The server is \<^verbatim>\<open>src/server.js\<close> (the first of the two variants held in that file, the
  one that computes \<^verbatim>\<open>auth_possible\<close>). The embedding follows its handlers statement by
  statement. Conventions:
  \<^item> a JavaScript string is a \<^typ>\<open>string\<close>, read as the UTF-8 bytes of the text;
  \<^item> a token is a string, or \<open>None\<close> for \<^verbatim>\<open>null\<close> and \<^verbatim>\<open>undefined\<close>, which the code
    never tells apart; a field whose \<^verbatim>\<open>null\<close> and \<^verbatim>\<open>undefined\<close> show differently is
    a \<open>nullable\<close>;
  \<^item> a number is an integer or \<^verbatim>\<open>NaN\<close>; \<^verbatim>\<open>Date.now()\<close> is an integer count of
    milliseconds, and a numeric \<^verbatim>\<open>expires_in\<close> an integer count of seconds;
  \<^item> a thrown value is an error object: an instance of a built-in error class or of one
    of the provider client's error classes, with the class's name and a message;
  \<^item> objects sent with \<^verbatim>\<open>res.json\<close>, and values only passed through, are \<open>jsval\<close>s;
    an object lists its own properties in order, each key once.
\<close>

datatype jsval =
    JUndefined
  | JNull
  | JBool bool
  | JNum int
  | JStr string
  | JArr "jsval list"
  | JObj "(string \<times> jsval) list"
  | JFunction string

text \<open>\<^verbatim>\<open>ToBoolean\<close>: the test made by \<^verbatim>\<open>!x\<close>, \<^verbatim>\<open>x && y\<close>, \<^verbatim>\<open>x || y\<close> and \<^verbatim>\<open>x ? y : z\<close>.\<close>

fun truthy :: "jsval \<Rightarrow> bool" where
  "truthy JUndefined = False"
| "truthy JNull = False"
| "truthy (JBool b) = b"
| "truthy (JNum n) = (n \<noteq> 0)"
| "truthy (JStr s) = (s \<noteq> [])"
| "truthy (JArr xs) = True"
| "truthy (JObj kvs) = True"
| "truthy (JFunction f) = True"

text \<open>The same test on a value that is a string, \<^verbatim>\<open>null\<close> or \<^verbatim>\<open>undefined\<close>.\<close>

fun truthy_str :: "string option \<Rightarrow> bool" where
  "truthy_str None = False"
| "truthy_str (Some s) = (s \<noteq> [])"

text \<open>A field of a reply: not there (\<^verbatim>\<open>undefined\<close>), \<^verbatim>\<open>null\<close>, or a value.\<close>

datatype 'a nullable = Absent | IsNull | Has 'a

fun nullable_val :: "('a \<Rightarrow> jsval) \<Rightarrow> 'a nullable \<Rightarrow> jsval" where
  "nullable_val f Absent = JUndefined"
| "nullable_val f IsNull = JNull"
| "nullable_val f (Has x) = f x"

subsection \<open>Numbers\<close>

text \<open>
  The arithmetic and the comparisons of the language on integers and \<^verbatim>\<open>NaN\<close>: an
  operation on \<^verbatim>\<open>NaN\<close> is \<^verbatim>\<open>NaN\<close>, and every comparison with \<^verbatim>\<open>NaN\<close> is false.
\<close>

datatype jsnum = Finite int | NaN

fun js_add :: "jsnum \<Rightarrow> jsnum \<Rightarrow> jsnum" where
  "js_add (Finite a) (Finite b) = Finite (a + b)"
| "js_add x y = NaN"

fun js_sub :: "jsnum \<Rightarrow> jsnum \<Rightarrow> jsnum" where
  "js_sub (Finite a) (Finite b) = Finite (a - b)"
| "js_sub x y = NaN"

fun js_mul :: "jsnum \<Rightarrow> jsnum \<Rightarrow> jsnum" where
  "js_mul (Finite a) (Finite b) = Finite (a * b)"
| "js_mul x y = NaN"

fun js_lt :: "jsnum \<Rightarrow> jsnum \<Rightarrow> bool" where
  "js_lt (Finite a) (Finite b) = (a < b)"
| "js_lt x y = False"

fun js_ge :: "jsnum \<Rightarrow> jsnum \<Rightarrow> bool" where
  "js_ge (Finite a) (Finite b) = (a \<ge> b)"
| "js_ge x y = False"

text \<open>\<^verbatim>\<open>ToNumber\<close>, as \<^verbatim>\<open>*\<close> applies it to a field that is a number, \<^verbatim>\<open>null\<close> or
  \<^verbatim>\<open>undefined\<close>.\<close>

fun ToNumber :: "int nullable \<Rightarrow> jsnum" where
  "ToNumber Absent = NaN"
| "ToNumber IsNull = Finite 0"
| "ToNumber (Has n) = Finite n"

subsection \<open>Errors\<close>

datatype error_class =
    Error
  | TypeError
  | SyntaxError
  | URIError
  | WebapiError
  | WebapiRegularError
  | WebapiAuthenticationError
  | WebapiPlayerError
  | TimeoutError

fun class_name :: "error_class \<Rightarrow> string" where
  "class_name Error = ''Error''"
| "class_name TypeError = ''TypeError''"
| "class_name SyntaxError = ''SyntaxError''"
| "class_name URIError = ''URIError''"
| "class_name WebapiError = ''WebapiError''"
| "class_name WebapiRegularError = ''WebapiRegularError''"
| "class_name WebapiAuthenticationError = ''WebapiAuthenticationError''"
| "class_name WebapiPlayerError = ''WebapiPlayerError''"
| "class_name TimeoutError = ''TimeoutError''"

datatype js_error = JsError (err_class: error_class) (err_message: string)

text \<open>\<^verbatim>\<open>String(err)\<close> on an error object is \<^verbatim>\<open>Error.prototype.toString\<close>.\<close>

definition String_err :: "js_error \<Rightarrow> string" where
  "String_err e =
     (let name = class_name (err_class e); msg = err_message e
      in if name = [] then msg
         else if msg = [] then name
         else name @ '': '' @ msg)"

text \<open>How a block of statements ends: it runs to its end or returns, or it throws.\<close>

datatype 'a completion = Return 'a | Throw js_error

section \<open>The query string\<close>

text \<open>
  A value of \<^verbatim>\<open>req.query\<close>, as Express's query parser builds it: a string, an array
  (a repeated key) or an object (a bracketed key). An absent key is \<open>None\<close>.
\<close>

datatype qval =
    QStr string
  | QArr "qval list"
  | QObj "(string \<times> qval) list"

fun truthy_q :: "qval option \<Rightarrow> bool" where
  "truthy_q None = False"
| "truthy_q (Some (QStr s)) = (s \<noteq> [])"
| "truthy_q (Some (QArr xs)) = True"
| "truthy_q (Some (QObj kvs)) = True"

fun join_comma :: "string list \<Rightarrow> string" where
  "join_comma [] = []"
| "join_comma [x] = x"
| "join_comma (x # y # ys) = x @ '','' @ join_comma (y # ys)"

text \<open>\<^verbatim>\<open>String(v)\<close>: an array joins its elements with commas, an object has a fixed text.\<close>

fun String_q :: "qval \<Rightarrow> string" where
  "String_q (QStr s) = s"
| "String_q (QArr xs) = join_comma (map String_q xs)"
| "String_q (QObj kvs) = ''[object Object]''"

section \<open>\<^verbatim>\<open>decodeURIComponent\<close>\<close>

text \<open>
  The built-in, after the \<^verbatim>\<open>Decode\<close> operation of the language standard: a character other
  than \<^verbatim>\<open>%\<close> is copied; \<^verbatim>\<open>%\<close> must be followed by two hexadecimal digits, giving an
  octet; an octet below 128 is that character; an octet that opens a UTF-8 sequence of
  \<open>n\<close> octets must be followed by \<open>n - 1\<close> further escapes, and the octets must be the
  UTF-8 encoding of a code point. Anything else throws \<^verbatim>\<open>URIError\<close>.
\<close>

definition hex_digit :: "char \<Rightarrow> nat option" where
  "hex_digit c =
     (let n = (of_char c :: nat)
      in if 48 \<le> n \<and> n \<le> 57 then Some (n - 48)
         else if 65 \<le> n \<and> n \<le> 70 then Some (n - 55)
         else if 97 \<le> n \<and> n \<le> 102 then Some (n - 87)
         else None)"

definition ParseHexOctet :: "char \<Rightarrow> char \<Rightarrow> nat option" where
  "ParseHexOctet h1 h2 =
     (case hex_digit h1 of
        None \<Rightarrow> None
      | Some a \<Rightarrow> (case hex_digit h2 of None \<Rightarrow> None | Some b \<Rightarrow> Some (16 * a + b)))"

text \<open>The number of leading 1 bits of an octet (5 stands for "more than 4").\<close>

definition leading_ones :: "nat \<Rightarrow> nat" where
  "leading_ones b =
     (if b < 128 then 0 else if b < 192 then 1 else if b < 224 then 2
      else if b < 240 then 3 else if b < 248 then 4 else 5)"

definition is_cont :: "nat \<Rightarrow> bool" where
  "is_cont b = (128 \<le> b \<and> b \<le> 191)"

text \<open>Well-formed UTF-8 sequences of two to four octets (no overlong form, no surrogate,
  nothing above U+10FFFF).\<close>

fun valid_utf8 :: "nat list \<Rightarrow> bool" where
  "valid_utf8 [b1, b2] = (194 \<le> b1 \<and> b1 \<le> 223 \<and> is_cont b2)"
| "valid_utf8 [b1, b2, b3] =
     (((b1 = 224 \<and> 160 \<le> b2 \<and> b2 \<le> 191) \<or>
       (225 \<le> b1 \<and> b1 \<le> 236 \<and> is_cont b2) \<or>
       (b1 = 237 \<and> 128 \<le> b2 \<and> b2 \<le> 159) \<or>
       (238 \<le> b1 \<and> b1 \<le> 239 \<and> is_cont b2)) \<and> is_cont b3)"
| "valid_utf8 [b1, b2, b3, b4] =
     (((b1 = 240 \<and> 144 \<le> b2 \<and> b2 \<le> 191) \<or>
       (241 \<le> b1 \<and> b1 \<le> 243 \<and> is_cont b2) \<or>
       (b1 = 244 \<and> 128 \<le> b2 \<and> b2 \<le> 143)) \<and> is_cont b3 \<and> is_cont b4)"
| "valid_utf8 bs = False"

text \<open>The \<open>j\<close> escapes that continue a sequence, and the text after them.\<close>

fun read_conts :: "nat \<Rightarrow> string \<Rightarrow> (nat list \<times> string) option" where
  "read_conts 0 s = Some ([], s)"
| "read_conts (Suc j) (c # h1 # h2 # rest) =
     (if c \<noteq> CHR ''%'' then None
      else (case ParseHexOctet h1 h2 of
              None \<Rightarrow> None
            | Some b \<Rightarrow>
                (case read_conts j rest of
                   None \<Rightarrow> None
                 | Some (bs, r) \<Rightarrow> Some (b # bs, r))))"
| "read_conts (Suc j) s = None"

lemma read_conts_length:
  "read_conts j s = Some (bs, r) \<Longrightarrow> length r \<le> length s"
proof (induction j s arbitrary: bs r rule: read_conts.induct)
  case (1 s)
  then show ?case by simp
next
  case (2 j c h1 h2 rest)
  then show ?case
    by (fastforce split: if_splits option.splits)
qed simp_all

definition URI_malformed :: js_error where
  "URI_malformed = JsError URIError ''URI malformed''"

function decodeURIComponent :: "string \<Rightarrow> js_error + string" where
  "decodeURIComponent [] = Inr []"
| "decodeURIComponent (c # cs) =
     (if c \<noteq> CHR ''%'' then
        (case decodeURIComponent cs of Inl e \<Rightarrow> Inl e | Inr r \<Rightarrow> Inr (c # r))
      else
        (case cs of
           h1 # h2 # rest \<Rightarrow>
             (case ParseHexOctet h1 h2 of
                None \<Rightarrow> Inl URI_malformed
              | Some b \<Rightarrow>
                  (let n = leading_ones b
                   in if n = 0 then
                        (case decodeURIComponent rest of
                           Inl e \<Rightarrow> Inl e
                         | Inr r \<Rightarrow> Inr (char_of b # r))
                      else if n = 1 \<or> n > 4 then Inl URI_malformed
                      else
                        (case read_conts (n - 1) rest of
                           None \<Rightarrow> Inl URI_malformed
                         | Some (bs, rest') \<Rightarrow>
                             if \<not> valid_utf8 (b # bs) then Inl URI_malformed
                             else
                               (case decodeURIComponent rest' of
                                  Inl e \<Rightarrow> Inl e
                                | Inr r \<Rightarrow> Inr (map char_of (b # bs) @ r)))))
         | _ \<Rightarrow> Inl URI_malformed))"
  by pat_completeness auto
termination
proof (relation "measure length", goal_cases)
  case 1
  show ?case by simp
next
  case (2 c cs)
  show ?case by simp
next
  case (3 c cs h1 list h2 rest b n)
  then show ?case by simp
next
  case (4 c cs h1 list h2 rest b n p bs rest')
  then have "read_conts (n - 1) rest = Some (bs, rest')" by simp
  then have "length rest' \<le> length rest" by (rule read_conts_length)
  with 4 show ?case by simp
qed

definition startsWith :: "string \<Rightarrow> string \<Rightarrow> bool" where
  "startsWith s p = (take (length p) s = p)"

section \<open>Own properties of objects\<close>

text \<open>The own property \<open>k\<close> of an object, if it has one.\<close>

fun own_prop :: "jsval \<Rightarrow> string \<Rightarrow> jsval option" where
  "own_prop (JObj kvs) k = map_of kvs k"
| "own_prop v k = None"

text \<open>\<^verbatim>\<open>o.k = v\<close> on an object: the property is replaced, or added after the others.\<close>

fun set_key :: "string \<Rightarrow> jsval \<Rightarrow> (string \<times> jsval) list \<Rightarrow> (string \<times> jsval) list" where
  "set_key k v [] = [(k, v)]"
| "set_key k v ((k', v') # kvs) =
     (if k' = k then (k, v) # kvs else (k', v') # set_key k v kvs)"

fun js_set :: "jsval \<Rightarrow> string \<Rightarrow> jsval \<Rightarrow> jsval" where
  "js_set (JObj kvs) k v = JObj (set_key k v kvs)"
| "js_set w k v = w"

section \<open>The provider client, the platform and the server's state\<close>

text \<open>
  What a call of the provider client resolves to. The handlers read its \<^verbatim>\<open>body\<close> and
  its \<^verbatim>\<open>status\<close>; the client itself puts the HTTP status under \<^verbatim>\<open>statusCode\<close>, which
  no handler reads.
\<close>

datatype 'b provider_data =
  ProviderData (data_body: "'b nullable") (data_status: "int option")
    (data_statusCode: "int option")

record token_body =
  access_token :: "string option"
  refresh_token :: "string option"
  expires_in :: "int nullable"

datatype artist = Artist (artist_name: jsval)

record album =
  album_name :: jsval
  album_images :: jsval

record track =
  track_id :: "string nullable"
  track_name :: jsval
  track_artists :: "artist list nullable"
  track_album :: "album nullable"
  track_duration_ms :: jsval
  track_external_urls :: jsval

text \<open>The fields of the playback body that the handler tests for truth only: \<open>None\<close> is
  \<^verbatim>\<open>undefined\<close> or \<^verbatim>\<open>null\<close>.\<close>

record playback_body =
  pb_item :: "track option"
  pb_progress_ms :: "int option"
  pb_is_playing :: "bool option"

text \<open>
  Everything a request reads from outside the process. A provider call settles: it
  either rejects (\<open>Inl\<close>) or resolves (\<open>Inr\<close>); it is given the credential the client
  object holds when the call is made. A path is the list of the segments joined below
  \<^verbatim>\<open>__dirname\<close>, so \<^verbatim>\<open>path.join(__dirname, 'public', 'canvas', name)\<close> is
  \<open>[''public'', ''canvas'', name]\<close>. The readings of \<^verbatim>\<open>Date.now()\<close> are separate, one
  for each place that reads the clock. \<^verbatim>\<open>JSON.parse\<close> is the platform's, and so is
  \<open>engine_get\<close>: what a property read \<^verbatim>\<open>v[k]\<close> finds when \<open>k\<close> is not an own property
  of an object (a property inherited from a prototype, an element or the length of an
  array or a string, a method of a primitive's wrapper).
\<close>

record env =
  SPOTIFY_CLIENT_ID :: "string option"
  SPOTIFY_CLIENT_SECRET :: "string option"
  authorizationCodeGrant :: "qval \<Rightarrow> js_error + token_body provider_data"
  refreshAccessToken :: "string option \<Rightarrow> js_error + token_body provider_data"
  getMyCurrentPlaybackState :: "string option \<Rightarrow> js_error + playback_body provider_data"
  now_callback :: int
  now_refresh_check :: int
  now_refresh_store :: int
  now_timestamp :: int
  existsSync :: "string list \<Rightarrow> bool"
  readFileSync :: "string list \<Rightarrow> js_error + string"
  JSON_parse :: "string \<Rightarrow> js_error + jsval"
  engine_get :: "jsval \<Rightarrow> string \<Rightarrow> jsval"

text \<open>\<^verbatim>\<open>v[k]\<close> for a string key, on a value that is not \<^verbatim>\<open>null\<close> or \<^verbatim>\<open>undefined\<close>.\<close>

definition js_member :: "env \<Rightarrow> jsval \<Rightarrow> string \<Rightarrow> jsval" where
  "js_member e v k = (case own_prop v k of Some x \<Rightarrow> x | None \<Rightarrow> engine_get e v k)"

text \<open>\<^verbatim>\<open>process.env.X || null\<close>.\<close>

definition CLIENT_ID :: "env \<Rightarrow> string option" where
  "CLIENT_ID e = (if truthy_str (SPOTIFY_CLIENT_ID e) then SPOTIFY_CLIENT_ID e else None)"

definition CLIENT_SECRET :: "env \<Rightarrow> string option" where
  "CLIENT_SECRET e =
     (if truthy_str (SPOTIFY_CLIENT_SECRET e) then SPOTIFY_CLIENT_SECRET e else None)"

text \<open>\<^verbatim>\<open>!!(CLIENT_ID && CLIENT_SECRET)\<close>.\<close>

definition authPossible :: "env \<Rightarrow> bool" where
  "authPossible e = (truthy_str (CLIENT_ID e) \<and> truthy_str (CLIENT_SECRET e))"

text \<open>
  The two module variables and the two credentials kept inside the \<^verbatim>\<open>spotifyApi\<close>
  object (read with \<^verbatim>\<open>getAccessToken\<close>, written with \<^verbatim>\<open>setAccessToken\<close> and
  \<^verbatim>\<open>setRefreshToken\<close>).
\<close>

record server_state =
  REFRESH_TOKEN :: "string option"
  ACCESS_TOKEN_EXPIRES_AT :: jsnum
  api_accessToken :: "string option"
  api_refreshToken :: "string option"

definition initial_state :: server_state where
  "initial_state =
     \<lparr>REFRESH_TOKEN = None, ACCESS_TOKEN_EXPIRES_AT = Finite 0,
      api_accessToken = None, api_refreshToken = None\<rparr>"

text \<open>What a handler does besides answering: the provider calls and the console lines.\<close>

datatype event =
    Call_authorizationCodeGrant qval
  | Call_refreshAccessToken "string option"
  | Call_getMyCurrentPlaybackState "string option"
  | Console_log "jsval list"
  | Console_error string js_error

text \<open>The answer: \<^verbatim>\<open>res.redirect(p)\<close>, \<^verbatim>\<open>res.status(n).send(t)\<close>,
  \<^verbatim>\<open>res.status(n).json(v)\<close> (\<^verbatim>\<open>res.json(v)\<close> has status 200).\<close>

datatype response =
    Redirect string
  | Send nat string
  | Json nat jsval

text \<open>Reading property \<open>k\<close> of a value that is \<^verbatim>\<open>undefined\<close> or \<^verbatim>\<open>null\<close> throws.\<close>

definition cannot_read :: "'a nullable \<Rightarrow> string \<Rightarrow> js_error" where
  "cannot_read v k =
     JsError TypeError
       (''Cannot read properties of '' @
        (case v of IsNull \<Rightarrow> ''null'' | _ \<Rightarrow> ''undefined'') @
        '' (reading '' @ [CHR 0x27] @ k @ [CHR 0x27] @ '')'')"

section \<open>\<^verbatim>\<open>GET /callback\<close>\<close>

text \<open>\<^verbatim>\<open>req.query.state || ''\<close>.\<close>

definition rawState :: "qval option \<Rightarrow> qval" where
  "rawState state =
     (case state of
        None \<Rightarrow> QStr []
      | Some v \<Rightarrow> if truthy_q (Some v) then v else QStr [])"

text \<open>The inner \<^verbatim>\<open>try\<close> of the handler: the redirect target computed from the state.\<close>

definition redirectTo :: "qval option \<Rightarrow> string" where
  "redirectTo state =
     (case decodeURIComponent (String_q (rawState state)) of
        Inl e \<Rightarrow> ''/''
      | Inr decoded \<Rightarrow>
          if decoded \<noteq> [] \<and> startsWith decoded ''/'' then decoded else ''/'')"

text \<open>The outer \<^verbatim>\<open>try\<close> block, for a code that is present.\<close>

definition callback_try ::
  "env \<Rightarrow> qval \<Rightarrow> qval option \<Rightarrow> server_state \<Rightarrow>
     response completion \<times> server_state \<times> event list" where
  "callback_try e code state s =
     (case authorizationCodeGrant e code of
        Inl err \<Rightarrow> (Throw err, s, [Call_authorizationCodeGrant code])
      | Inr data \<Rightarrow>
          (case data_body data of
             Has body \<Rightarrow>
               (let accessToken = access_token body;
                    refreshToken = refresh_token body;
                    expiresIn = expires_in body;
                    s1 = s\<lparr>api_accessToken := accessToken\<rparr>;
                    s2 = s1\<lparr>api_refreshToken := refreshToken\<rparr>;
                    s3 = s2\<lparr>REFRESH_TOKEN := refreshToken\<rparr>;
                    s4 = s3\<lparr>ACCESS_TOKEN_EXPIRES_AT :=
                             js_add (Finite (now_callback e))
                               (js_mul (ToNumber expiresIn) (Finite 1000))\<rparr>
                in (Return (Redirect (redirectTo state)), s4,
                    [Call_authorizationCodeGrant code]))
           | _ \<Rightarrow>
               (Throw (cannot_read (data_body data) ''access_token''), s,
                [Call_authorizationCodeGrant code])))"

definition callback ::
  "env \<Rightarrow> qval option \<Rightarrow> qval option \<Rightarrow> server_state \<Rightarrow>
     response \<times> server_state \<times> event list" where
  "callback e code state s =
     (case code of
        None \<Rightarrow> (Send 400 ''Missing code'', s, [])
      | Some c \<Rightarrow>
          if \<not> truthy_q (Some c) then (Send 400 ''Missing code'', s, [])
          else
            (case callback_try e c state s of
               (Return r, s', ev) \<Rightarrow> (r, s', ev)
             | (Throw err, s', ev) \<Rightarrow>
                 (Send 500 ''Auth error'', s',
                  ev @ [Console_error ''Error exchanging code:'' err])))"

section \<open>\<^verbatim>\<open>refreshAccessTokenIfNeeded\<close>\<close>

text \<open>The \<^verbatim>\<open>try\<close> block: two early returns, then the refresh.\<close>

definition refresh_try ::
  "env \<Rightarrow> server_state \<Rightarrow> unit completion \<times> server_state \<times> event list" where
  "refresh_try e s =
     (if \<not> truthy_str (REFRESH_TOKEN s) then (Return (), s, [])
      else if js_lt (Finite (now_refresh_check e))
                (js_sub (ACCESS_TOKEN_EXPIRES_AT s) (Finite 30000))
      then (Return (), s, [])
      else
        (let s1 = s\<lparr>api_refreshToken := REFRESH_TOKEN s\<rparr>;
             call = Call_refreshAccessToken (api_refreshToken s1)
         in case refreshAccessToken e (api_refreshToken s1) of
              Inl err \<Rightarrow> (Throw err, s1, [call])
            | Inr data \<Rightarrow>
                (case data_body data of
                   Has body \<Rightarrow>
                     (let s2 = s1\<lparr>api_accessToken := access_token body\<rparr>;
                          expiresIn = expires_in body;
                          s3 = s2\<lparr>ACCESS_TOKEN_EXPIRES_AT :=
                                   js_add (Finite (now_refresh_store e))
                                     (js_mul (ToNumber expiresIn) (Finite 1000))\<rparr>
                      in (Return (), s3,
                          [call,
                           Console_log [JStr ''Refreshed access token, expires in'',
                                        nullable_val JNum expiresIn, JStr ''s'']]))
                 | _ \<Rightarrow> (Throw (cannot_read (data_body data) ''access_token''), s1, [call]))))"

text \<open>The function: whatever the block throws is caught and written to the console.\<close>

definition refreshAccessTokenIfNeeded ::
  "env \<Rightarrow> server_state \<Rightarrow> unit completion \<times> server_state \<times> event list" where
  "refreshAccessTokenIfNeeded e s =
     (case refresh_try e s of
        (Return u, s', ev) \<Rightarrow> (Return u, s', ev)
      | (Throw err, s', ev) \<Rightarrow>
          (Return (), s', ev @ [Console_error ''Failed to refresh token:'' err]))"

section \<open>\<^verbatim>\<open>GET /now-playing\<close>\<close>

definition not_authenticated :: "env \<Rightarrow> response" where
  "not_authenticated e =
     Json 401 (JObj [(''error'', JStr ''Not authenticated. Visit /login''),
                     (''auth_possible'', JBool (authPossible e))])"

definition no_session :: response where
  "no_session = Json 200 (JObj [(''is_playing'', JBool False), (''item'', JNull)])"

text \<open>The object literal built for a present \<^verbatim>\<open>item\<close>; \<^verbatim>\<open>item.artists.map\<close> and
  \<^verbatim>\<open>item.album.name\<close> throw when \<^verbatim>\<open>artists\<close> or \<^verbatim>\<open>album\<close> is absent.\<close>

definition item_literal :: "track \<Rightarrow> js_error + jsval" where
  "item_literal it =
     (case track_artists it of
        Has arts \<Rightarrow>
          (case track_album it of
             Has al \<Rightarrow>
               Inr (JObj [(''id'', nullable_val JStr (track_id it)),
                          (''name'', track_name it),
                          (''artists'', JArr (map artist_name arts)),
                          (''album'', album_name al),
                          (''album_images'', album_images al),
                          (''duration_ms'', track_duration_ms it),
                          (''external_urls'', track_external_urls it)])
           | _ \<Rightarrow> Inl (cannot_read (track_album it) ''name''))
      | _ \<Rightarrow> Inl (cannot_read (track_artists it) ''map''))"

text \<open>The object \<^verbatim>\<open>out\<close>, before the canvas lookup.\<close>

definition make_out :: "env \<Rightarrow> playback_body \<Rightarrow> js_error + jsval" where
  "make_out e body =
     (let progress_ms = (case pb_progress_ms body of None \<Rightarrow> 0 | Some n \<Rightarrow> n);
          is_playing = (case pb_is_playing body of None \<Rightarrow> False | Some b \<Rightarrow> b);
          head = [(''is_playing'', JBool is_playing),
                  (''progress_ms'', JNum progress_ms),
                  (''timestamp'', JNum (now_timestamp e))]
      in case pb_item body of
           None \<Rightarrow> Inr (JObj (head @ [(''item'', JNull)]))
         | Some it \<Rightarrow>
             (case item_literal it of
                Inl err \<Rightarrow> Inl err
              | Inr obj \<Rightarrow> Inr (JObj (head @ [(''item'', obj)]))))"

text \<open>
  The lookup of a canvas for a track id: the value assigned to \<^verbatim>\<open>out.item.canvas_url\<close>,
  if any, and the console lines. The \<^verbatim>\<open>.mp4\<close> file is tried first, then the
  \<^verbatim>\<open>.webm\<close> file, then \<^verbatim>\<open>canvas.json\<close>, whose reading and parsing have a
  \<^verbatim>\<open>try\<close> of their own. \<^verbatim>\<open>mapping[id]\<close> is read only when \<^verbatim>\<open>mapping\<close> is truthy.
\<close>

definition canvas_lookup :: "env \<Rightarrow> string \<Rightarrow> jsval option \<times> event list" where
  "canvas_lookup e tid =
     (let mp4 = [''public'', ''canvas'', tid @ ''.mp4''];
          webm = [''public'', ''canvas'', tid @ ''.webm'']
      in if existsSync e mp4 then (Some (JStr (''/canvas/'' @ tid @ ''.mp4'')), [])
         else if existsSync e webm then (Some (JStr (''/canvas/'' @ tid @ ''.webm'')), [])
         else
           (let mapFile = [''canvas.json'']
            in if existsSync e mapFile then
                 (case readFileSync e mapFile of
                    Inl err \<Rightarrow> (None, [Console_error ''Failed to parse canvas.json'' err])
                  | Inr text \<Rightarrow>
                      (case JSON_parse e text of
                         Inl err \<Rightarrow> (None, [Console_error ''Failed to parse canvas.json'' err])
                       | Inr mapping \<Rightarrow>
                           if truthy mapping \<and> truthy (js_member e mapping tid)
                           then (Some (js_member e mapping tid), [])
                           else (None, [])))
               else (None, [])))"

text \<open>The track id for which the lookup runs: \<^verbatim>\<open>out.item && out.item.id\<close>.\<close>

definition canvas_id :: "playback_body \<Rightarrow> string option" where
  "canvas_id body =
     (case pb_item body of
        None \<Rightarrow> None
      | Some it \<Rightarrow>
          (case track_id it of
             Has tid \<Rightarrow> if tid \<noteq> [] then Some tid else None
           | _ \<Rightarrow> None))"

text \<open>\<^verbatim>\<open>out.item.canvas_url = url\<close>, on an \<^verbatim>\<open>out\<close> that has an item.\<close>

definition set_canvas_url :: "jsval \<Rightarrow> jsval \<Rightarrow> jsval" where
  "set_canvas_url out url =
     (case own_prop out ''item'' of
        None \<Rightarrow> out
      | Some item \<Rightarrow> js_set out ''item'' (js_set item ''canvas_url'' url))"

text \<open>
  The block that looks for a canvas. Its outer \<^verbatim>\<open>try\<close> has nothing to catch:
  \<^verbatim>\<open>existsSync\<close> does not throw, and the reading and the parsing are inside the inner
  \<^verbatim>\<open>try\<close>.
\<close>

definition augment :: "env \<Rightarrow> playback_body \<Rightarrow> jsval \<Rightarrow> jsval \<times> event list" where
  "augment e body out =
     (case canvas_id body of
        None \<Rightarrow> (out, [])
      | Some tid \<Rightarrow>
          (case canvas_lookup e tid of
             (None, ev) \<Rightarrow> (out, ev)
           | (Some url, ev) \<Rightarrow> (set_canvas_url out url, ev)))"

text \<open>The \<^verbatim>\<open>try\<close> block of the handler.\<close>

definition now_playing_try ::
  "env \<Rightarrow> server_state \<Rightarrow> response completion \<times> server_state \<times> event list" where
  "now_playing_try e s =
     (case refreshAccessTokenIfNeeded e s of
        (Throw err, s1, ev1) \<Rightarrow> (Throw err, s1, ev1)
      | (Return u, s1, ev1) \<Rightarrow>
          if \<not> truthy_str (api_accessToken s1) then (Return (not_authenticated e), s1, ev1)
          else
            (let ev2 = ev1 @ [Call_getMyCurrentPlaybackState (api_accessToken s1)]
             in case getMyCurrentPlaybackState e (api_accessToken s1) of
                  Inl err \<Rightarrow> (Throw err, s1, ev2)
                | Inr data \<Rightarrow>
                    (case data_body data of
                       Has body \<Rightarrow>
                         if data_status data = Some 204 then (Return no_session, s1, ev2)
                         else
                           (case make_out e body of
                              Inl err \<Rightarrow> (Throw err, s1, ev2)
                            | Inr out \<Rightarrow>
                                (case augment e body out of
                                   (out', ev3) \<Rightarrow>
                                     (Return (Json 200 out'), s1, ev2 @ ev3)))
                     | _ \<Rightarrow> (Return no_session, s1, ev2))))"

definition now_playing ::
  "env \<Rightarrow> server_state \<Rightarrow> response \<times> server_state \<times> event list" where
  "now_playing e s =
     (case now_playing_try e s of
        (Return r, s', ev) \<Rightarrow> (r, s', ev)
      | (Throw err, s', ev) \<Rightarrow>
          (Json 500 (JObj [(''error'', JStr ''failed''), (''details'', JStr (String_err err))]),
           s', ev @ [Console_error ''now-playing error'' err]))"

section \<open>Observations on a run\<close>

text \<open>The provider's refresh operation was called.\<close>

definition calls_refresh :: "event list \<Rightarrow> bool" where
  "calls_refresh ev =
     list_ex (\<lambda>x. case x of Call_refreshAccessToken t \<Rightarrow> True | _ \<Rightarrow> False) ev"

text \<open>The client object holds the refresh token that the module variable holds.\<close>

definition synced :: "server_state \<Rightarrow> bool" where
  "synced s = (api_refreshToken s = REFRESH_TOKEN s)"

text \<open>The reading or the parsing of \<^verbatim>\<open>canvas.json\<close> throws.\<close>

definition mapping_fails :: "env \<Rightarrow> bool" where
  "mapping_fails e =
     (case readFileSync e [''canvas.json''] of
        Inl err \<Rightarrow> True
      | Inr text \<Rightarrow> (case JSON_parse e text of Inl err \<Rightarrow> True | Inr mapping \<Rightarrow> False))"

text \<open>The console has the line written when that reading or parsing throws.\<close>

definition mapping_failure_logged :: "event list \<Rightarrow> bool" where
  "mapping_failure_logged ev =
     list_ex (\<lambda>x. case x of
                     Console_error m err \<Rightarrow> m = ''Failed to parse canvas.json''
                   | _ \<Rightarrow> False) ev"

section \<open>Sample data\<close>

definition demo_token_body :: token_body where
  "demo_token_body =
     \<lparr>access_token = Some ''BQDaccess'', refresh_token = Some ''AQCrefresh'',
      expires_in = Has 3600\<rparr>"

definition demo_tid :: string where
  "demo_tid = ''4uLU6hMCjMI75M1A2tKUQC''"

definition demo_json_text :: string where
  "demo_json_text =
     ''{'' @ [CHR 0x22] @ demo_tid @ [CHR 0x22] @ '':'' @
     [CHR 0x22] @ ''https://cdn.example/loop.mp4'' @ [CHR 0x22] @ ''}''"

definition demo_track :: track where
  "demo_track =
     \<lparr>track_id = Has demo_tid,
      track_name = JStr ''Never Gonna Give You Up'',
      track_artists = Has [Artist (JStr ''Rick Astley'')],
      track_album =
        Has \<lparr>album_name = JStr ''Whenever You Need Somebody'', album_images = JArr []\<rparr>,
      track_duration_ms = JNum 213573,
      track_external_urls = JObj []\<rparr>"

definition demo_body :: playback_body where
  "demo_body =
     \<lparr>pb_item = Some demo_track, pb_progress_ms = Some 1500, pb_is_playing = Some True\<rparr>"

text \<open>
  What the provider client resolves to when the provider answers 204 "no content": the
  body is an empty object, the HTTP status is under \<^verbatim>\<open>statusCode\<close>, and there is no
  \<^verbatim>\<open>status\<close>.
\<close>

definition empty_body :: playback_body where
  "empty_body = \<lparr>pb_item = None, pb_progress_ms = None, pb_is_playing = None\<rparr>"

definition no_content_reply :: "playback_body provider_data" where
  "no_content_reply = ProviderData (Has empty_body) None (Some 204)"

text \<open>
  The properties that a plain object inherits: the methods of \<^verbatim>\<open>Object.prototype\<close>, and
  that prototype itself under \<^verbatim>\<open>__proto__\<close>. The sample runs read nothing else through
  the engine.
\<close>

definition object_prototype :: "(string \<times> jsval) list" where
  "object_prototype =
     map (\<lambda>k. (k, JFunction k))
       [''constructor'', ''hasOwnProperty'', ''isPrototypeOf'', ''propertyIsEnumerable'',
        ''toLocaleString'', ''toString'', ''valueOf'', ''__defineGetter__'',
        ''__defineSetter__'', ''__lookupGetter__'', ''__lookupSetter__'']"

definition demo_engine_get :: "jsval \<Rightarrow> string \<Rightarrow> jsval" where
  "demo_engine_get v k =
     (if k = ''__proto__'' then JObj object_prototype
      else (case map_of object_prototype k of None \<Rightarrow> JUndefined | Some f \<Rightarrow> f))"

text \<open>
  A configured server whose provider grants a code, rejects a refresh and reports no
  active session, and whose disk has neither a canvas file nor \<^verbatim>\<open>canvas.json\<close>.
\<close>

definition demo_env :: env where
  "demo_env =
     \<lparr>SPOTIFY_CLIENT_ID = Some ''client'',
      SPOTIFY_CLIENT_SECRET = Some ''secret'',
      authorizationCodeGrant =
        (\<lambda>code. Inr (ProviderData (Has demo_token_body) None (Some 200))),
      refreshAccessToken = (\<lambda>t. Inl (JsError WebapiAuthenticationError ''invalid_grant'')),
      getMyCurrentPlaybackState = (\<lambda>t. Inr no_content_reply),
      now_callback = 1000000,
      now_refresh_check = 5000000,
      now_refresh_store = 5000200,
      now_timestamp = 5000300,
      existsSync = (\<lambda>p. False),
      readFileSync = (\<lambda>p. Inl (JsError Error ''ENOENT: no such file or directory'')),
      JSON_parse =
        (\<lambda>t. if t = demo_json_text
             then Inr (JObj [(demo_tid, JStr ''https://cdn.example/loop.mp4'')])
             else Inl (JsError SyntaxError ''Unexpected token'')),
      engine_get = demo_engine_get\<rparr>"

text \<open>The same server with a track playing.\<close>

definition demo_env_playing :: env where
  "demo_env_playing =
     demo_env\<lparr>getMyCurrentPlaybackState :=
       (\<lambda>t. Inr (ProviderData (Has demo_body) None (Some 200)))\<rparr>"

text \<open>The state after a login at instant 1000000: the token expires at 4600000.\<close>

definition demo_state :: server_state where
  "demo_state =
     \<lparr>REFRESH_TOKEN = Some ''AQCrefresh'', ACCESS_TOKEN_EXPIRES_AT = Finite 4600000,
      api_accessToken = Some ''BQDaccess'', api_refreshToken = Some ''AQCrefresh''\<rparr>"

text \<open>
  The provider grants the code with a reply that has no \<^verbatim>\<open>expires_in\<close>; the state after
  that login, whose expiry is \<^verbatim>\<open>NaN\<close>.
\<close>

definition demo_env_no_expiry :: env where
  "demo_env_no_expiry =
     demo_env\<lparr>authorizationCodeGrant :=
       (\<lambda>code. Inr (ProviderData (Has (demo_token_body\<lparr>expires_in := Absent\<rparr>)) None
                       (Some 200)))\<rparr>"

definition demo_state_nan :: server_state where
  "demo_state_nan = demo_state\<lparr>ACCESS_TOKEN_EXPIRES_AT := NaN\<rparr>"

text \<open>Replies that the handler also takes for "no session": one without a body, and one
  that has a \<^verbatim>\<open>status\<close> of 204.\<close>

definition demo_env_no_body :: env where
  "demo_env_no_body =
     demo_env\<lparr>getMyCurrentPlaybackState := (\<lambda>t. Inr (ProviderData Absent None (Some 204)))\<rparr>"

definition demo_env_204 :: env where
  "demo_env_204 =
     demo_env\<lparr>getMyCurrentPlaybackState :=
       (\<lambda>t. Inr (ProviderData (Has demo_body) (Some 204) (Some 204)))\<rparr>"

text \<open>The provider rejects the playback-state call.\<close>

definition demo_env_down :: env where
  "demo_env_down =
     demo_env\<lparr>getMyCurrentPlaybackState :=
       (\<lambda>t. Inl (JsError WebapiRegularError ''The access token expired''))\<rparr>"

text \<open>
  The disk holds both canvas files of the sample track and a \<^verbatim>\<open>canvas.json\<close> with an
  entry for it; then only the \<^verbatim>\<open>.webm\<close> file and the mapping; then only the mapping;
  then a mapping that is not JSON.
\<close>

definition demo_env_files :: env where
  "demo_env_files =
     demo_env_playing
       \<lparr>existsSync := (\<lambda>p. p = [''public'', ''canvas'', demo_tid @ ''.mp4''] \<or>
                           p = [''public'', ''canvas'', demo_tid @ ''.webm''] \<or>
                           p = [''canvas.json'']),
        readFileSync := (\<lambda>p. if p = [''canvas.json''] then Inr demo_json_text
                             else Inl (JsError Error ''ENOENT: no such file or directory''))\<rparr>"

definition demo_env_webm :: env where
  "demo_env_webm =
     demo_env_files
       \<lparr>existsSync := (\<lambda>p. p = [''public'', ''canvas'', demo_tid @ ''.webm''] \<or>
                           p = [''canvas.json''])\<rparr>"

definition demo_env_mapping :: env where
  "demo_env_mapping = demo_env_files\<lparr>existsSync := (\<lambda>p. p = [''canvas.json''])\<rparr>"

definition demo_env_broken :: env where
  "demo_env_broken =
     demo_env_mapping\<lparr>readFileSync := (\<lambda>p. if p = [''canvas.json''] then Inr ''{not json''
                             else Inl (JsError Error ''ENOENT: no such file or directory''))\<rparr>"

text \<open>The object \<^verbatim>\<open>out\<close> for the sample track, before the canvas lookup, and the same
  object with a canvas.\<close>

definition demo_item :: "(string \<times> jsval) list" where
  "demo_item =
     [(''id'', JStr ''4uLU6hMCjMI75M1A2tKUQC''),
      (''name'', JStr ''Never Gonna Give You Up''),
      (''artists'', JArr [JStr ''Rick Astley'']),
      (''album'', JStr ''Whenever You Need Somebody''),
      (''album_images'', JArr []),
      (''duration_ms'', JNum 213573),
      (''external_urls'', JObj [])]"

definition demo_out :: jsval where
  "demo_out =
     JObj [(''is_playing'', JBool True), (''progress_ms'', JNum 1500),
           (''timestamp'', JNum 5000300),
           (''item'', JObj demo_item)]"

definition demo_out_with :: "jsval \<Rightarrow> jsval" where
  "demo_out_with url =
     JObj [(''is_playing'', JBool True), (''progress_ms'', JNum 1500),
           (''timestamp'', JNum 5000300),
           (''item'', JObj (demo_item @ [(''canvas_url'', url)]))]"

section \<open>Lemmas on the handlers\<close>

lemma class_name_nonempty: "class_name c \<noteq> []"
  by (cases c) simp_all

lemma String_err_nonempty: "String_err err \<noteq> []"
  by (simp add: String_err_def Let_def class_name_nonempty)

text \<open>On numbers that are not \<^verbatim>\<open>NaN\<close>, "not less" is "at least"; on \<^verbatim>\<open>NaN\<close> both
  comparisons are false.\<close>

lemma js_lt_Finite:
  "js_lt (Finite a) (js_sub (Finite x) (Finite d)) \<longleftrightarrow> a < x - d"
  by simp

lemma js_ge_Finite:
  "js_ge (Finite a) (js_sub (Finite x) (Finite d)) \<longleftrightarrow> a \<ge> x - d"
  by simp

lemma js_lt_NaN: "\<not> js_lt (Finite a) (js_sub NaN (Finite d))"
  by simp

lemma js_ge_NaN: "\<not> js_ge (Finite a) (js_sub NaN (Finite d))"
  by simp

text \<open>\<^verbatim>\<open>refreshAccessTokenIfNeeded\<close> never throws.\<close>

lemma refresh_returns: "fst (refreshAccessTokenIfNeeded e s) = Return ()"
  by (simp add: refreshAccessTokenIfNeeded_def split: prod.splits completion.splits)

lemma refresh_skipped:
  "\<not> truthy_str (REFRESH_TOKEN s) \<or>
   js_lt (Finite (now_refresh_check e)) (js_sub (ACCESS_TOKEN_EXPIRES_AT s) (Finite 30000)) \<Longrightarrow>
     refreshAccessTokenIfNeeded e s = (Return (), s, [])"
  by (auto simp: refreshAccessTokenIfNeeded_def refresh_try_def)

lemma refresh_failed:
  assumes "truthy_str (REFRESH_TOKEN s)"
    and "\<not> js_lt (Finite (now_refresh_check e))
            (js_sub (ACCESS_TOKEN_EXPIRES_AT s) (Finite 30000))"
    and "refreshAccessToken e (REFRESH_TOKEN s) = Inl err"
  shows "refreshAccessTokenIfNeeded e s =
     (Return (), s\<lparr>api_refreshToken := REFRESH_TOKEN s\<rparr>,
      [Call_refreshAccessToken (REFRESH_TOKEN s), Console_error ''Failed to refresh token:'' err])"
  using assms by (simp add: refreshAccessTokenIfNeeded_def refresh_try_def Let_def)

lemma now_playing_unauthenticated:
  assumes "refreshAccessTokenIfNeeded e s = (r, s1, ev1)"
    and "\<not> truthy_str (api_accessToken s1)"
  shows "now_playing e s = (not_authenticated e, s1, ev1)"
proof -
  from assms(1) refresh_returns [of e s] have "r = Return ()" by simp
  with assms show ?thesis
    by (simp add: now_playing_def now_playing_try_def)
qed

text \<open>What the handler does once an access token is held, case by case.\<close>

lemma now_playing_authenticated:
  assumes "refreshAccessTokenIfNeeded e s = (r, s1, ev1)"
    and "truthy_str (api_accessToken s1)"
  shows "now_playing e s =
    (case getMyCurrentPlaybackState e (api_accessToken s1) of
       Inl err \<Rightarrow>
         (Json 500 (JObj [(''error'', JStr ''failed''), (''details'', JStr (String_err err))]), s1,
          ev1 @ [Call_getMyCurrentPlaybackState (api_accessToken s1),
                 Console_error ''now-playing error'' err])
     | Inr data \<Rightarrow>
         (case data_body data of
            Has body \<Rightarrow>
              if data_status data = Some 204
              then (no_session, s1, ev1 @ [Call_getMyCurrentPlaybackState (api_accessToken s1)])
              else
                (case make_out e body of
                   Inl err \<Rightarrow>
                     (Json 500 (JObj [(''error'', JStr ''failed''),
                                      (''details'', JStr (String_err err))]), s1,
                      ev1 @ [Call_getMyCurrentPlaybackState (api_accessToken s1),
                             Console_error ''now-playing error'' err])
                 | Inr out \<Rightarrow>
                     (Json 200 (fst (augment e body out)), s1,
                      ev1 @ [Call_getMyCurrentPlaybackState (api_accessToken s1)]
                        @ snd (augment e body out)))
          | _ \<Rightarrow> (no_session, s1, ev1 @ [Call_getMyCurrentPlaybackState (api_accessToken s1)])))"
proof -
  from assms(1) refresh_returns [of e s] have "r = Return ()" by simp
  with assms show ?thesis
    by (simp add: now_playing_def now_playing_try_def Let_def
        split: sum.splits nullable.splits prod.splits)
qed

text \<open>The handler on a reply with a body and no \<^verbatim>\<open>status\<close> of 204, whose \<^verbatim>\<open>out\<close> is
  built without a throw.\<close>

lemma now_playing_body:
  assumes "refreshAccessTokenIfNeeded e s = (r, s1, ev1)"
    and "truthy_str (api_accessToken s1)"
    and "getMyCurrentPlaybackState e (api_accessToken s1) = Inr data"
    and "data_body data = Has body"
    and "data_status data \<noteq> Some 204"
    and "make_out e body = Inr out"
  shows "now_playing e s =
           (Json 200 (fst (augment e body out)), s1,
            ev1 @ [Call_getMyCurrentPlaybackState (api_accessToken s1)]
              @ snd (augment e body out))"
  using now_playing_authenticated [OF assms(1,2)] assms(3-6) by simp

text \<open>
  The client object and the module variable hold the same refresh token: so it is at the
  start, and every handler keeps it so.
\<close>

lemma synced_initial: "synced initial_state"
  by (simp add: synced_def initial_state_def)

lemma synced_callback:
  assumes "synced s" and "callback e code state s = (res, s', ev)"
  shows "synced s'"
  using assms
  by (auto simp: callback_def callback_try_def synced_def Let_def
      split: option.splits if_splits sum.splits nullable.splits)

lemma synced_refresh:
  assumes "synced s" and "refreshAccessTokenIfNeeded e s = (r, s', ev)"
  shows "synced s'"
  using assms
  by (auto simp: refreshAccessTokenIfNeeded_def refresh_try_def synced_def Let_def
      split: if_splits sum.splits nullable.splits)

lemma synced_now_playing:
  assumes "synced s" and "now_playing e s = (res, s', ev)"
  shows "synced s'"
proof -
  obtain r s1 ev1 where rf: "refreshAccessTokenIfNeeded e s = (r, s1, ev1)"
    by (cases "refreshAccessTokenIfNeeded e s")
  from synced_refresh [OF assms(1) rf] have s1: "synced s1" .
  have "fst (snd (now_playing e s)) = s1"
  proof (cases "truthy_str (api_accessToken s1)")
    case True
    from now_playing_authenticated [OF rf True] show ?thesis
      by (simp split: sum.splits nullable.splits)
  next
    case False
    from now_playing_unauthenticated [OF rf False] show ?thesis by simp
  qed
  with assms(2) s1 show ?thesis by simp
qed

text \<open>The sample state at the sample instant: the refresh is due and is rejected.\<close>

lemma demo_refresh:
  "refreshAccessTokenIfNeeded demo_env demo_state =
     (Return (), demo_state,
      [Call_refreshAccessToken (Some ''AQCrefresh''),
       Console_error ''Failed to refresh token:''
         (JsError WebapiAuthenticationError ''invalid_grant'')])"
  by (simp add: refreshAccessTokenIfNeeded_def refresh_try_def demo_env_def demo_state_def Let_def)

lemma demo_token: "truthy_str (api_accessToken demo_state)"
  by (simp add: demo_state_def)

text \<open>A change of the provider's playback reply, of the disk or of the clock's later
  readings does not change the refresh.\<close>

lemma refresh_try_cong:
  assumes "refreshAccessToken e' = refreshAccessToken e"
    and "now_refresh_check e' = now_refresh_check e"
    and "now_refresh_store e' = now_refresh_store e"
  shows "refresh_try e' s = refresh_try e s"
  using assms by (simp add: refresh_try_def Let_def split: sum.splits nullable.splits)

lemma refresh_cong:
  assumes "refreshAccessToken e' = refreshAccessToken e"
    and "now_refresh_check e' = now_refresh_check e"
    and "now_refresh_store e' = now_refresh_store e"
  shows "refreshAccessTokenIfNeeded e' s = refreshAccessTokenIfNeeded e s"
  by (simp add: refreshAccessTokenIfNeeded_def refresh_try_cong [OF assms])

section \<open>The refresh decision and the refresh\<close>

text \<open>
  Claim C9. When no refresh token is held (\<^verbatim>\<open>REFRESH_TOKEN\<close> is \<^verbatim>\<open>null\<close> or empty),
  \<^verbatim>\<open>refreshAccessTokenIfNeeded\<close> returns normally, changes no part of the credential
  state and calls nothing, whatever the stored expiry is.
\<close>

theorem refresh_noop_without_refresh_token:
  assumes "\<not> truthy_str (REFRESH_TOKEN s)"
  shows "refreshAccessTokenIfNeeded e s = (Return (), s, [])"
  using assms by (simp add: refreshAccessTokenIfNeeded_def refresh_try_def)

theorem refresh_noop_without_refresh_token_witness:
  "\<not> truthy_str (REFRESH_TOKEN (demo_state\<lparr>REFRESH_TOKEN := None\<rparr>)) \<and>
   js_lt (ACCESS_TOKEN_EXPIRES_AT (demo_state\<lparr>REFRESH_TOKEN := None\<rparr>))
     (Finite (now_refresh_check demo_env)) \<and>
   refreshAccessTokenIfNeeded demo_env (demo_state\<lparr>REFRESH_TOKEN := None\<rparr>) =
     (Return (), demo_state\<lparr>REFRESH_TOKEN := None\<rparr>, []) \<and>
   refreshAccessTokenIfNeeded demo_env (demo_state_nan\<lparr>REFRESH_TOKEN := Some []\<rparr>) =
     (Return (), demo_state_nan\<lparr>REFRESH_TOKEN := Some []\<rparr>, [])"
proof -
  have h: "\<not> truthy_str (REFRESH_TOKEN (demo_state\<lparr>REFRESH_TOKEN := None\<rparr>))" by simp
  have h': "\<not> truthy_str (REFRESH_TOKEN (demo_state_nan\<lparr>REFRESH_TOKEN := Some []\<rparr>))" by simp
  have t: "js_lt (ACCESS_TOKEN_EXPIRES_AT (demo_state\<lparr>REFRESH_TOKEN := None\<rparr>))
     (Finite (now_refresh_check demo_env))"
    by (simp add: demo_state_def demo_env_def)
  from h t refresh_noop_without_refresh_token [OF h, of demo_env]
    refresh_noop_without_refresh_token [OF h', of demo_env]
  show ?thesis by simp
qed

text \<open>
  Claim C2, as the specification states it: the refresh is called exactly when a refresh
  token is held and \<^verbatim>\<open>now >= expiresAt - 30000\<close>. It fails on a state whose expiry is
  \<^verbatim>\<open>NaN\<close>, which a login leaves when the provider's reply has no \<^verbatim>\<open>expires_in\<close>: there
  \<^verbatim>\<open>now >= expiresAt - 30000\<close> is false and the refresh is called.
\<close>

theorem needsRefresh_nan_counterexample:
  "fst (snd (callback demo_env_no_expiry (Some (QStr ''AQBcode'')) None initial_state)) =
     demo_state_nan \<and>
   calls_refresh (snd (snd (refreshAccessTokenIfNeeded demo_env demo_state_nan))) \<and>
   \<not> js_ge (Finite (now_refresh_check demo_env))
        (js_sub (ACCESS_TOKEN_EXPIRES_AT demo_state_nan) (Finite 30000)) \<and>
   \<not> (calls_refresh (snd (snd (refreshAccessTokenIfNeeded demo_env demo_state_nan))) \<longleftrightarrow>
        truthy_str (REFRESH_TOKEN demo_state_nan) \<and>
        js_ge (Finite (now_refresh_check demo_env))
          (js_sub (ACCESS_TOKEN_EXPIRES_AT demo_state_nan) (Finite 30000)))"
proof -
  have a: "fst (snd (callback demo_env_no_expiry (Some (QStr ''AQBcode'')) None initial_state)) =
     demo_state_nan"
    by (simp add: callback_def callback_try_def demo_env_no_expiry_def demo_env_def
        demo_token_body_def demo_state_nan_def demo_state_def initial_state_def Let_def)
  have b: "calls_refresh (snd (snd (refreshAccessTokenIfNeeded demo_env demo_state_nan)))"
    by (simp add: refreshAccessTokenIfNeeded_def refresh_try_def calls_refresh_def
        demo_env_def demo_state_nan_def demo_state_def Let_def)
  have c: "\<not> js_ge (Finite (now_refresh_check demo_env))
        (js_sub (ACCESS_TOKEN_EXPIRES_AT demo_state_nan) (Finite 30000))"
    by (simp add: demo_state_nan_def)
  from a b c show ?thesis by simp
qed

text \<open>
  Claim C2, amended. The provider's refresh operation is called by
  \<^verbatim>\<open>refreshAccessTokenIfNeeded\<close> exactly when a refresh token is held and it is not the
  case that \<^verbatim>\<open>now < expiresAt - 30000\<close>. When the stored expiry is a number, that is
  \<^verbatim>\<open>now >= expiresAt - 30000\<close>: no call while the expiry is more than 30 seconds ahead,
  and a call, a token being held, from 30 seconds before the expiry on. When the stored
  expiry is \<^verbatim>\<open>NaN\<close>, it is called whenever a refresh token is held.
\<close>

theorem needsRefresh_iff_not_before:
  "(calls_refresh (snd (snd (refreshAccessTokenIfNeeded e s))) \<longleftrightarrow>
      truthy_str (REFRESH_TOKEN s) \<and>
      \<not> js_lt (Finite (now_refresh_check e))
           (js_sub (ACCESS_TOKEN_EXPIRES_AT s) (Finite 30000))) \<and>
   (ACCESS_TOKEN_EXPIRES_AT s = Finite x \<longrightarrow>
      (calls_refresh (snd (snd (refreshAccessTokenIfNeeded e s))) \<longleftrightarrow>
         truthy_str (REFRESH_TOKEN s) \<and> now_refresh_check e \<ge> x - 30000)) \<and>
   (ACCESS_TOKEN_EXPIRES_AT s = Finite x \<and> x > now_refresh_check e + 30000 \<longrightarrow>
      \<not> calls_refresh (snd (snd (refreshAccessTokenIfNeeded e s)))) \<and>
   (ACCESS_TOKEN_EXPIRES_AT s = Finite x \<and> truthy_str (REFRESH_TOKEN s) \<and>
    now_refresh_check e \<ge> x - 30000 \<longrightarrow>
      calls_refresh (snd (snd (refreshAccessTokenIfNeeded e s)))) \<and>
   (ACCESS_TOKEN_EXPIRES_AT s = NaN \<longrightarrow>
      (calls_refresh (snd (snd (refreshAccessTokenIfNeeded e s))) \<longleftrightarrow>
         truthy_str (REFRESH_TOKEN s)))"
proof -
  have main: "calls_refresh (snd (snd (refreshAccessTokenIfNeeded e s))) \<longleftrightarrow>
      truthy_str (REFRESH_TOKEN s) \<and>
      \<not> js_lt (Finite (now_refresh_check e))
           (js_sub (ACCESS_TOKEN_EXPIRES_AT s) (Finite 30000))"
    by (auto simp: refreshAccessTokenIfNeeded_def refresh_try_def calls_refresh_def Let_def
        split: sum.splits nullable.splits)
  show ?thesis
  proof (cases "ACCESS_TOKEN_EXPIRES_AT s")
    case (Finite y)
    with main show ?thesis by auto
  next
    case NaN
    with main show ?thesis by simp
  qed
qed

text \<open>With the expiry at 4600000: no call at 4569999, a call at 4570000. With the expiry
  \<^verbatim>\<open>NaN\<close>: a call. Before any login: no call.\<close>

theorem needsRefresh_iff_not_before_witness:
  "ACCESS_TOKEN_EXPIRES_AT demo_state = Finite 4600000 \<and>
   \<not> calls_refresh (snd (snd (refreshAccessTokenIfNeeded
        (demo_env\<lparr>now_refresh_check := 4569999\<rparr>) demo_state))) \<and>
   calls_refresh (snd (snd (refreshAccessTokenIfNeeded
        (demo_env\<lparr>now_refresh_check := 4570000\<rparr>) demo_state))) \<and>
   ACCESS_TOKEN_EXPIRES_AT demo_state_nan = NaN \<and>
   calls_refresh (snd (snd (refreshAccessTokenIfNeeded demo_env demo_state_nan))) \<and>
   \<not> calls_refresh (snd (snd (refreshAccessTokenIfNeeded demo_env initial_state)))"
proof -
  have x: "ACCESS_TOKEN_EXPIRES_AT demo_state = Finite 4600000"
    by (simp add: demo_state_def)
  have n: "ACCESS_TOKEN_EXPIRES_AT demo_state_nan = NaN"
    by (simp add: demo_state_nan_def)
  have t: "truthy_str (REFRESH_TOKEN demo_state)" "truthy_str (REFRESH_TOKEN demo_state_nan)"
    "\<not> truthy_str (REFRESH_TOKEN initial_state)"
    by (simp_all add: demo_state_def demo_state_nan_def initial_state_def)
  from needsRefresh_iff_not_before
    [of "demo_env\<lparr>now_refresh_check := 4569999\<rparr>" demo_state 4600000] x t
  have a: "\<not> calls_refresh (snd (snd (refreshAccessTokenIfNeeded
        (demo_env\<lparr>now_refresh_check := 4569999\<rparr>) demo_state)))" by simp
  from needsRefresh_iff_not_before
    [of "demo_env\<lparr>now_refresh_check := 4570000\<rparr>" demo_state 4600000] x t
  have b: "calls_refresh (snd (snd (refreshAccessTokenIfNeeded
        (demo_env\<lparr>now_refresh_check := 4570000\<rparr>) demo_state)))" by simp
  from needsRefresh_iff_not_before [of demo_env demo_state_nan 0] n t
  have c: "calls_refresh (snd (snd (refreshAccessTokenIfNeeded demo_env demo_state_nan)))"
    by simp
  from needsRefresh_iff_not_before [of demo_env initial_state 0] t
  have d: "\<not> calls_refresh (snd (snd (refreshAccessTokenIfNeeded demo_env initial_state)))"
    by simp
  from x n a b c d show ?thesis by simp
qed

text \<open>
  Claim C3. When the refresh is due and the provider's refresh operation rejects,
  \<^verbatim>\<open>refreshAccessTokenIfNeeded\<close> still returns normally: the rejection is written to the
  console and not thrown. The stored refresh token, the access token and the expiry are
  what they were (and the whole state is, when the client object already held the stored
  refresh token, as it does after every login). A caller without an access token then
  answers "not authenticated".
\<close>

theorem refresh_failure_absorbed:
  assumes "truthy_str (REFRESH_TOKEN s)"
    and "\<not> js_lt (Finite (now_refresh_check e))
            (js_sub (ACCESS_TOKEN_EXPIRES_AT s) (Finite 30000))"
    and "refreshAccessToken e (REFRESH_TOKEN s) = Inl err"
    and "refreshAccessTokenIfNeeded e s = (r, s', ev)"
  shows "r = Return () \<and>
         REFRESH_TOKEN s' = REFRESH_TOKEN s \<and>
         api_accessToken s' = api_accessToken s \<and>
         ACCESS_TOKEN_EXPIRES_AT s' = ACCESS_TOKEN_EXPIRES_AT s \<and>
         (synced s \<longrightarrow> s' = s) \<and>
         ev = [Call_refreshAccessToken (REFRESH_TOKEN s),
               Console_error ''Failed to refresh token:'' err] \<and>
         (\<not> truthy_str (api_accessToken s) \<longrightarrow> fst (now_playing e s) = not_authenticated e)"
proof -
  from refresh_failed [OF assms(1-3)] assms(4)
  have r: "r = Return ()" and s': "s' = s\<lparr>api_refreshToken := REFRESH_TOKEN s\<rparr>"
    and ev: "ev = [Call_refreshAccessToken (REFRESH_TOKEN s),
               Console_error ''Failed to refresh token:'' err]"
    by simp_all
  have "fst (now_playing e s) = not_authenticated e" if "\<not> truthy_str (api_accessToken s)"
  proof -
    from that s' have "\<not> truthy_str (api_accessToken s')" by simp
    from now_playing_unauthenticated [OF assms(4) this] show ?thesis by simp
  qed
  with r s' ev show ?thesis by (simp add: synced_def)
qed

text \<open>The sample state at instant 5000000, after the expiry at 4600000.\<close>

theorem refresh_failure_absorbed_witness:
  "truthy_str (REFRESH_TOKEN demo_state) \<and>
   ACCESS_TOKEN_EXPIRES_AT demo_state = Finite 4600000 \<and>
   now_refresh_check demo_env \<ge> 4600000 - 30000 \<and>
   refreshAccessToken demo_env (REFRESH_TOKEN demo_state) =
     Inl (JsError WebapiAuthenticationError ''invalid_grant'') \<and>
   refreshAccessTokenIfNeeded demo_env demo_state =
     (Return (), demo_state,
      [Call_refreshAccessToken (Some ''AQCrefresh''),
       Console_error ''Failed to refresh token:''
         (JsError WebapiAuthenticationError ''invalid_grant'')])"
proof -
  have h1: "truthy_str (REFRESH_TOKEN demo_state)" by (simp add: demo_state_def)
  have x: "ACCESS_TOKEN_EXPIRES_AT demo_state = Finite 4600000" by (simp add: demo_state_def)
  have n: "now_refresh_check demo_env \<ge> 4600000 - 30000" by (simp add: demo_env_def)
  from x n have h2: "\<not> js_lt (Finite (now_refresh_check demo_env))
            (js_sub (ACCESS_TOKEN_EXPIRES_AT demo_state) (Finite 30000))" by simp
  have h3: "refreshAccessToken demo_env (REFRESH_TOKEN demo_state) =
     Inl (JsError WebapiAuthenticationError ''invalid_grant'')" by (simp add: demo_env_def)
  obtain r s' ev where h4: "refreshAccessTokenIfNeeded demo_env demo_state = (r, s', ev)"
    by (cases "refreshAccessTokenIfNeeded demo_env demo_state")
  have sy: "synced demo_state" by (simp add: synced_def demo_state_def)
  from refresh_failure_absorbed [OF h1 h2 h3 h4] sy
  have "r = Return ()" "s' = demo_state"
    "ev = [Call_refreshAccessToken (REFRESH_TOKEN demo_state),
       Console_error ''Failed to refresh token:''
         (JsError WebapiAuthenticationError ''invalid_grant'')]" by simp_all
  with h1 x n h3 h4 show ?thesis by (simp add: demo_state_def)
qed

section \<open>The redirect after a login\<close>

text \<open>The handler on a code that the provider accepts.\<close>

lemma callback_granted:
  assumes "truthy_q (Some code)"
    and "authorizationCodeGrant e code = Inr data"
    and "data_body data = Has body"
  shows "callback e (Some code) state s =
     (Redirect (redirectTo state),
      s\<lparr>api_accessToken := access_token body, api_refreshToken := refresh_token body,
        REFRESH_TOKEN := refresh_token body,
        ACCESS_TOKEN_EXPIRES_AT :=
          js_add (Finite (now_callback e)) (js_mul (ToNumber (expires_in body)) (Finite 1000))\<rparr>,
      [Call_authorizationCodeGrant code])"
  using assms by (simp add: callback_def callback_try_def Let_def)

lemma startsWith_slash: "startsWith s ''/'' \<longleftrightarrow> s \<noteq> [] \<and> hd s = CHR ''/''"
  by (cases s) (simp_all add: startsWith_def)

text \<open>
  Claim C1. After a successful code exchange the handler redirects to the value that the
  state decodes to when that value is not empty and begins with a slash, and to
  \<^verbatim>\<open>/\<close> in every other case. A state that decodes to
  \<^verbatim>\<open>https://evil.example/x\<close> gives \<^verbatim>\<open>/\<close>; one that decodes to
  \<^verbatim>\<open>/dashboard\<close> gives \<^verbatim>\<open>/dashboard\<close>.
\<close>

theorem callback_redirect_path:
  assumes "truthy_q (Some code)"
    and "authorizationCodeGrant e code = Inr data"
    and "data_body data = Has body"
  shows "fst (callback e (Some code) state s) =
           Redirect (case decodeURIComponent (String_q (rawState state)) of
                       Inl err \<Rightarrow> ''/''
                     | Inr decoded \<Rightarrow>
                         if decoded \<noteq> [] \<and> hd decoded = CHR ''/'' then decoded else ''/'') \<and>
         (decodeURIComponent (String_q (rawState state)) = Inr ''https://evil.example/x'' \<longrightarrow>
            fst (callback e (Some code) state s) = Redirect ''/'') \<and>
         (decodeURIComponent (String_q (rawState state)) = Inr ''/dashboard'' \<longrightarrow>
            fst (callback e (Some code) state s) = Redirect ''/dashboard'')"
proof -
  have r: "fst (callback e (Some code) state s) = Redirect (redirectTo state)"
    using callback_granted [OF assms] by simp
  have "redirectTo state =
      (case decodeURIComponent (String_q (rawState state)) of
         Inl err \<Rightarrow> ''/''
       | Inr decoded \<Rightarrow> if decoded \<noteq> [] \<and> hd decoded = CHR ''/'' then decoded else ''/'')"
    by (auto simp: redirectTo_def startsWith_slash split: sum.splits)
  with r show ?thesis by (simp add: startsWith_def)
qed

theorem callback_redirect_path_witness:
  "truthy_q (Some (QStr ''AQBcode'')) \<and>
   authorizationCodeGrant demo_env (QStr ''AQBcode'') =
     Inr (ProviderData (Has demo_token_body) None (Some 200)) \<and>
   decodeURIComponent ''https%3A%2F%2Fevil.example%2Fx'' = Inr ''https://evil.example/x'' \<and>
   fst (callback demo_env (Some (QStr ''AQBcode''))
          (Some (QStr ''https%3A%2F%2Fevil.example%2Fx'')) initial_state) = Redirect ''/'' \<and>
   decodeURIComponent ''%2Fdashboard'' = Inr ''/dashboard'' \<and>
   fst (callback demo_env (Some (QStr ''AQBcode''))
          (Some (QStr ''%2Fdashboard'')) initial_state) = Redirect ''/dashboard''"
proof -
  have h1: "truthy_q (Some (QStr ''AQBcode''))" by simp
  have h2: "authorizationCodeGrant demo_env (QStr ''AQBcode'') =
     Inr (ProviderData (Has demo_token_body) None (Some 200))" by (simp add: demo_env_def)
  have h3: "data_body (ProviderData (Has demo_token_body) None (Some 200)) = Has demo_token_body"
    by simp
  have d1: "decodeURIComponent ''https%3A%2F%2Fevil.example%2Fx'' = Inr ''https://evil.example/x''"
    by code_simp
  have d2: "decodeURIComponent ''%2Fdashboard'' = Inr ''/dashboard''"
    by code_simp
  have e1: "fst (callback demo_env (Some (QStr ''AQBcode''))
          (Some (QStr ''https%3A%2F%2Fevil.example%2Fx'')) initial_state) = Redirect ''/''"
    using callback_redirect_path [OF h1 h2 h3, of "Some (QStr ''https%3A%2F%2Fevil.example%2Fx'')" initial_state] d1
    by (simp add: rawState_def)
  have e2: "fst (callback demo_env (Some (QStr ''AQBcode''))
          (Some (QStr ''%2Fdashboard'')) initial_state) = Redirect ''/dashboard''"
    using callback_redirect_path [OF h1 h2 h3, of "Some (QStr ''%2Fdashboard'')" initial_state] d2
    by (simp add: rawState_def)
  from h1 h2 d1 d2 e1 e2 show ?thesis by simp
qed

text \<open>
  Claim C10. After a successful code exchange, a state whose decoding throws (a malformed
  escape) still gives a redirect, to \<^verbatim>\<open>/\<close>, with the tokens stored: no error
  response.
\<close>

theorem callback_malformed_state:
  assumes "truthy_q (Some code)"
    and "authorizationCodeGrant e code = Inr data"
    and "data_body data = Has body"
    and "decodeURIComponent (String_q (rawState state)) = Inl err"
  shows "callback e (Some code) state s =
     (Redirect ''/'',
      s\<lparr>api_accessToken := access_token body, api_refreshToken := refresh_token body,
        REFRESH_TOKEN := refresh_token body,
        ACCESS_TOKEN_EXPIRES_AT :=
          js_add (Finite (now_callback e)) (js_mul (ToNumber (expires_in body)) (Finite 1000))\<rparr>,
      [Call_authorizationCodeGrant code])"
  using callback_granted [OF assms(1-3), of state s] assms(4) by (simp add: redirectTo_def)

theorem callback_malformed_state_witness:
  "truthy_q (Some (QStr ''AQBcode'')) \<and>
   authorizationCodeGrant demo_env (QStr ''AQBcode'') =
     Inr (ProviderData (Has demo_token_body) None (Some 200)) \<and>
   decodeURIComponent (String_q (rawState (Some (QStr ''%E0%A4%A'')))) = Inl URI_malformed \<and>
   callback demo_env (Some (QStr ''AQBcode'')) (Some (QStr ''%E0%A4%A'')) initial_state =
     (Redirect ''/'', demo_state, [Call_authorizationCodeGrant (QStr ''AQBcode'')])"
proof -
  have h1: "truthy_q (Some (QStr ''AQBcode''))" by simp
  have h2: "authorizationCodeGrant demo_env (QStr ''AQBcode'') =
     Inr (ProviderData (Has demo_token_body) None (Some 200))" by (simp add: demo_env_def)
  have h3: "data_body (ProviderData (Has demo_token_body) None (Some 200)) = Has demo_token_body"
    by simp
  have h4: "decodeURIComponent (String_q (rawState (Some (QStr ''%E0%A4%A'')))) = Inl URI_malformed"
    by code_simp
  from callback_malformed_state [OF h1 h2 h3 h4, of initial_state] h1 h2 h4 show ?thesis
    by (simp add: initial_state_def demo_state_def demo_token_body_def demo_env_def)
qed

section \<open>Lemmas on the canvas lookup\<close>

text \<open>The object \<^verbatim>\<open>out\<close> built for a track with an id: its item is an object without a
  \<^verbatim>\<open>canvas_url\<close>.\<close>

lemma make_out_item:
  assumes "make_out e body = Inr out" and "canvas_id body = Some tid"
  shows "\<exists>pre kvs. out = JObj (pre @ [(''item'', JObj kvs)]) \<and>
           map_of pre ''item'' = None \<and> map_of kvs ''canvas_url'' = None"
  using assms
  by (auto simp: make_out_def item_literal_def canvas_id_def Let_def
      split: option.splits sum.splits if_splits nullable.splits)

lemma map_of_set_key: "map_of (set_key k v kvs) = (map_of kvs)(k \<mapsto> v)"
  by (induction kvs) (auto simp: fun_eq_iff)

lemma canvas_url_of_set:
  assumes "out = JObj (pre @ [(''item'', JObj kvs)])" and "map_of pre ''item'' = None"
  shows "\<exists>item. own_prop (set_canvas_url out url) ''item'' = Some item \<and>
           own_prop item ''canvas_url'' = Some url"
  using assms by (simp add: set_canvas_url_def map_of_set_key map_add_def)

lemma canvas_url_of_plain:
  assumes "out = JObj (pre @ [(''item'', JObj kvs)])" and "map_of pre ''item'' = None"
    and "map_of kvs ''canvas_url'' = None"
  shows "\<exists>item. own_prop out ''item'' = Some item \<and> own_prop item ''canvas_url'' = None"
  using assms by (simp add: map_add_def)

text \<open>The \<^verbatim>\<open>canvas_url\<close> of the answer's item is what the lookup gave.\<close>

lemma augment_canvas_url:
  assumes "make_out e body = Inr out" and "canvas_id body = Some tid"
  shows "\<exists>item. own_prop (fst (augment e body out)) ''item'' = Some item \<and>
           own_prop item ''canvas_url'' = fst (canvas_lookup e tid)"
proof -
  from make_out_item [OF assms] obtain pre kvs where
    out: "out = JObj (pre @ [(''item'', JObj kvs)])" and pre: "map_of pre ''item'' = None"
    and kvs: "map_of kvs ''canvas_url'' = None" by blast
  show ?thesis
  proof (cases "canvas_lookup e tid")
    case (Pair u ev)
    show ?thesis
    proof (cases u)
      case None
      with Pair assms(2) canvas_url_of_plain [OF out pre kvs] show ?thesis
        by (simp add: augment_def)
    next
      case (Some url)
      with Pair assms(2) canvas_url_of_set [OF out pre, of url] show ?thesis
        by (simp add: augment_def)
    qed
  qed
qed

lemma now_playing_canvas_url:
  assumes "refreshAccessTokenIfNeeded e s = (r, s1, ev1)"
    and "truthy_str (api_accessToken s1)"
    and "getMyCurrentPlaybackState e (api_accessToken s1) = Inr data"
    and "data_body data = Has body"
    and "data_status data \<noteq> Some 204"
    and "make_out e body = Inr out"
    and "canvas_id body = Some tid"
  shows "\<exists>out' item. fst (now_playing e s) = Json 200 out' \<and>
           own_prop out' ''item'' = Some item \<and>
           own_prop item ''canvas_url'' = fst (canvas_lookup e tid)"
  using now_playing_body [OF assms(1-6)] augment_canvas_url [OF assms(6,7)]
  by auto

text \<open>A mapping that cannot be read or parsed counts as a mapping that is not there.\<close>

lemma canvas_lookup_as_not_found:
  assumes "mapping_fails e"
  shows "fst (canvas_lookup e tid) =
         fst (canvas_lookup (e\<lparr>existsSync := (existsSync e)([''canvas.json''] := False)\<rparr>) tid)"
  using assms by (auto simp: canvas_lookup_def mapping_fails_def Let_def split: sum.splits)

lemma augment_as_not_found:
  assumes "mapping_fails e"
  shows "fst (augment e body out) =
         fst (augment (e\<lparr>existsSync := (existsSync e)([''canvas.json''] := False)\<rparr>) body out)"
proof (cases "canvas_id body")
  case None
  then show ?thesis by (simp add: augment_def)
next
  case (Some tid)
  with canvas_lookup_as_not_found [OF assms, of tid] show ?thesis
    by (auto simp: augment_def split: prod.splits option.splits)
qed

lemma refresh_existsSync [simp]:
  "refreshAccessTokenIfNeeded (e\<lparr>existsSync := f\<rparr>) s = refreshAccessTokenIfNeeded e s"
  by (rule refresh_cong) simp_all

lemma make_out_existsSync [simp]: "make_out (e\<lparr>existsSync := f\<rparr>) body = make_out e body"
  by (simp add: make_out_def Let_def split: option.splits)

lemma not_authenticated_existsSync [simp]:
  "not_authenticated (e\<lparr>existsSync := f\<rparr>) = not_authenticated e"
  by (simp add: not_authenticated_def authPossible_def CLIENT_ID_def CLIENT_SECRET_def)

lemma now_playing_as_not_found:
  assumes "mapping_fails e"
  shows "fst (now_playing e s) =
         fst (now_playing (e\<lparr>existsSync := (existsSync e)([''canvas.json''] := False)\<rparr>) s)"
proof -
  let ?e' = "e\<lparr>existsSync := (existsSync e)([''canvas.json''] := False)\<rparr>"
  obtain r s1 ev1 where rf: "refreshAccessTokenIfNeeded e s = (r, s1, ev1)"
    by (cases "refreshAccessTokenIfNeeded e s")
  then have rf': "refreshAccessTokenIfNeeded ?e' s = (r, s1, ev1)" by simp
  show ?thesis
  proof (cases "truthy_str (api_accessToken s1)")
    case False
    from now_playing_unauthenticated [OF rf False] now_playing_unauthenticated [OF rf' False]
    show ?thesis by simp
  next
    case True
    from now_playing_authenticated [OF rf True] now_playing_authenticated [OF rf' True]
      augment_as_not_found [OF assms]
    show ?thesis
      by (simp split: sum.splits nullable.splits)
  qed
qed

text \<open>Where the console line on \<^verbatim>\<open>canvas.json\<close> comes from.\<close>

lemma mapping_failure_logged_append [simp]:
  "mapping_failure_logged (xs @ ys) \<longleftrightarrow> mapping_failure_logged xs \<or> mapping_failure_logged ys"
  by (simp add: mapping_failure_logged_def)

lemma refresh_not_logged:
  "\<not> mapping_failure_logged (snd (snd (refreshAccessTokenIfNeeded e s)))"
  by (auto simp: refreshAccessTokenIfNeeded_def refresh_try_def mapping_failure_logged_def Let_def
      split: sum.splits nullable.splits)

lemma canvas_lookup_logged:
  "mapping_failure_logged (snd (canvas_lookup e tid)) \<Longrightarrow> fst (canvas_lookup e tid) = None"
  by (auto simp: canvas_lookup_def mapping_failure_logged_def Let_def
      split: if_splits sum.splits)

lemma canvas_lookup_logged_iff:
  "mapping_failure_logged (snd (canvas_lookup e tid)) \<longleftrightarrow>
     \<not> existsSync e [''public'', ''canvas'', tid @ ''.mp4''] \<and>
     \<not> existsSync e [''public'', ''canvas'', tid @ ''.webm''] \<and>
     existsSync e [''canvas.json''] \<and> mapping_fails e"
  by (auto simp: canvas_lookup_def mapping_failure_logged_def mapping_fails_def Let_def
      split: if_splits sum.splits)

lemma augment_logged:
  assumes "mapping_failure_logged (snd (augment e body out))"
  shows "fst (augment e body out) = out \<and> (\<exists>tid. canvas_id body = Some tid)"
proof (cases "canvas_id body")
  case None
  with assms show ?thesis by (simp add: augment_def mapping_failure_logged_def)
next
  case (Some tid)
  obtain u ev where cl: "canvas_lookup e tid = (u, ev)" by (cases "canvas_lookup e tid")
  with assms Some have "mapping_failure_logged ev"
    by (cases u) (simp_all add: augment_def)
  with canvas_lookup_logged [of e tid] cl have "u = None" by simp
  with Some cl show ?thesis by (simp add: augment_def)
qed

text \<open>The runs of the handler on the sample track: with both canvas files and a mapping
  entry, with the \<^verbatim>\<open>.webm\<close> file and the entry, with the entry alone, and with a mapping
  that is not JSON.\<close>

lemmas demo_run_defs =
  now_playing_def now_playing_try_def refreshAccessTokenIfNeeded_def
  refresh_try_def make_out_def item_literal_def augment_def canvas_id_def canvas_lookup_def
  set_canvas_url_def js_member_def
  demo_env_broken_def demo_env_mapping_def demo_env_webm_def demo_env_files_def
  demo_env_playing_def demo_env_def demo_state_def demo_body_def demo_track_def demo_out_def
  demo_out_with_def demo_item_def demo_tid_def demo_json_text_def Let_def

lemma demo_files_run:
  "fst (now_playing demo_env_files demo_state) =
     Json 200 (demo_out_with (JStr ''/canvas/4uLU6hMCjMI75M1A2tKUQC.mp4''))"
  by (simp add: demo_run_defs)

lemma demo_webm_run:
  "fst (now_playing demo_env_webm demo_state) =
     Json 200 (demo_out_with (JStr ''/canvas/4uLU6hMCjMI75M1A2tKUQC.webm''))"
  by (simp add: demo_run_defs)

lemma demo_mapping_run:
  "fst (now_playing demo_env_mapping demo_state) =
     Json 200 (demo_out_with (JStr ''https://cdn.example/loop.mp4''))"
  by (simp add: demo_run_defs)

lemma demo_broken_run:
  "now_playing demo_env_broken demo_state =
     (Json 200 demo_out, demo_state,
      [Call_refreshAccessToken (Some ''AQCrefresh''),
       Console_error ''Failed to refresh token:''
         (JsError WebapiAuthenticationError ''invalid_grant''),
       Call_getMyCurrentPlaybackState (Some ''BQDaccess''),
       Console_error ''Failed to parse canvas.json'' (JsError SyntaxError ''Unexpected token'')])"
  by (simp add: demo_run_defs)

section \<open>The playback snapshot\<close>

text \<open>
  Claim C4. With an access token held, a reply that reports no active session is
  answered with status 200, \<^verbatim>\<open>is_playing\<close> false and \<^verbatim>\<open>item\<close> null, never with an
  error. When the reply has no body (\<^verbatim>\<open>undefined\<close> or \<^verbatim>\<open>null\<close>) or has a \<^verbatim>\<open>status\<close> of
  204, the answer is the object \<^verbatim>\<open>{is_playing: false, item: null}\<close>. When the reply has a
  body without an item that is not playing, as the reply that the provider client
  builds from a 204 (an empty body, the status under \<^verbatim>\<open>statusCode\<close>), the answer is that
  object with \<^verbatim>\<open>progress_ms\<close> (0 for the empty body) and \<^verbatim>\<open>timestamp\<close> besides.
\<close>

theorem now_playing_no_session:
  assumes "refreshAccessTokenIfNeeded e s = (r, s1, ev1)"
    and "truthy_str (api_accessToken s1)"
    and "getMyCurrentPlaybackState e (api_accessToken s1) = Inr data"
  shows "(data_body data = Absent \<or> data_body data = IsNull \<or> data_status data = Some 204 \<longrightarrow>
            fst (now_playing e s) =
              Json 200 (JObj [(''is_playing'', JBool False), (''item'', JNull)])) \<and>
         (data_body data = Has body \<and> data_status data \<noteq> Some 204 \<and>
          pb_item body = None \<and> pb_is_playing body \<noteq> Some True \<longrightarrow>
            fst (now_playing e s) =
              Json 200 (JObj [(''is_playing'', JBool False),
                              (''progress_ms'',
                               JNum (case pb_progress_ms body of None \<Rightarrow> 0 | Some n \<Rightarrow> n)),
                              (''timestamp'', JNum (now_timestamp e)),
                              (''item'', JNull)])) \<and>
         (data = no_content_reply \<longrightarrow>
            fst (now_playing e s) =
              Json 200 (JObj [(''is_playing'', JBool False), (''progress_ms'', JNum 0),
                              (''timestamp'', JNum (now_timestamp e)), (''item'', JNull)])) \<and>
         (data_body data = Absent \<or> data_body data = IsNull \<or> data_status data = Some 204 \<or>
          data = no_content_reply \<or>
          (data_body data = Has body \<and> pb_item body = None \<and> pb_is_playing body \<noteq> Some True)
          \<longrightarrow>
            (\<exists>out. fst (now_playing e s) = Json 200 out \<and>
                   own_prop out ''is_playing'' = Some (JBool False) \<and>
                   own_prop out ''item'' = Some JNull))"
proof -
  note np = now_playing_authenticated [OF assms(1,2)]
  have a: "fst (now_playing e s) =
              Json 200 (JObj [(''is_playing'', JBool False), (''item'', JNull)])"
    if "data_body data = Absent \<or> data_body data = IsNull \<or> data_status data = Some 204"
    using np assms(3) that by (auto simp: no_session_def split: nullable.splits)
  have b: "fst (now_playing e s) =
              Json 200 (JObj [(''is_playing'', JBool False),
                              (''progress_ms'',
                               JNum (case pb_progress_ms b' of None \<Rightarrow> 0 | Some n \<Rightarrow> n)),
                              (''timestamp'', JNum (now_timestamp e)),
                              (''item'', JNull)])"
    if "data_body data = Has b'" "data_status data \<noteq> Some 204" "pb_item b' = None"
      "pb_is_playing b' \<noteq> Some True" for b'
  proof -
    from that(3,4) have mo: "make_out e b' =
        Inr (JObj [(''is_playing'', JBool False),
                   (''progress_ms'',
                    JNum (case pb_progress_ms b' of None \<Rightarrow> 0 | Some n \<Rightarrow> n)),
                   (''timestamp'', JNum (now_timestamp e)),
                   (''item'', JNull)])"
      by (cases "pb_is_playing b'") (auto simp: make_out_def Let_def)
    from that(3) have au: "augment e b' out = (out, [])" for out
      by (simp add: augment_def canvas_id_def)
    from now_playing_body [OF assms that(1,2) mo] au show ?thesis by simp
  qed
  have c: "fst (now_playing e s) =
              Json 200 (JObj [(''is_playing'', JBool False), (''progress_ms'', JNum 0),
                              (''timestamp'', JNum (now_timestamp e)), (''item'', JNull)])"
    if "data = no_content_reply"
    using b [of empty_body] that by (simp add: no_content_reply_def empty_body_def)
  have d: "\<exists>out. fst (now_playing e s) = Json 200 out \<and>
                   own_prop out ''is_playing'' = Some (JBool False) \<and>
                   own_prop out ''item'' = Some JNull"
    if "data_body data = Absent \<or> data_body data = IsNull \<or> data_status data = Some 204 \<or>
        data = no_content_reply \<or>
        (data_body data = Has body \<and> pb_item body = None \<and> pb_is_playing body \<noteq> Some True)"
  proof (cases "data_body data = Absent \<or> data_body data = IsNull \<or>
      data_status data = Some 204")
    case True
    from a [OF True] show ?thesis by simp
  next
    case False
    with that have "data = no_content_reply \<or>
        (data_body data = Has body \<and> pb_item body = None \<and> pb_is_playing body \<noteq> Some True)"
      by simp
    then show ?thesis
    proof
      assume "data = no_content_reply"
      from c [OF this] show ?thesis by simp
    next
      assume h: "data_body data = Has body \<and> pb_item body = None \<and>
        pb_is_playing body \<noteq> Some True"
      from False have "data_status data \<noteq> Some 204" by simp
      with b [of body] h show ?thesis by simp
    qed
  qed
  from a b [of body] c d show ?thesis by blast
qed

text \<open>The reply that the client builds from a 204, a reply without a body, and a reply
  with a \<^verbatim>\<open>status\<close> of 204.\<close>

theorem now_playing_no_session_witness:
  "truthy_str (api_accessToken demo_state) \<and>
   getMyCurrentPlaybackState demo_env (api_accessToken demo_state) = Inr no_content_reply \<and>
   fst (now_playing demo_env demo_state) =
     Json 200 (JObj [(''is_playing'', JBool False), (''progress_ms'', JNum 0),
                     (''timestamp'', JNum 5000300), (''item'', JNull)]) \<and>
   getMyCurrentPlaybackState demo_env_no_body (api_accessToken demo_state) =
     Inr (ProviderData Absent None (Some 204)) \<and>
   fst (now_playing demo_env_no_body demo_state) =
     Json 200 (JObj [(''is_playing'', JBool False), (''item'', JNull)]) \<and>
   getMyCurrentPlaybackState demo_env_204 (api_accessToken demo_state) =
     Inr (ProviderData (Has demo_body) (Some 204) (Some 204)) \<and>
   fst (now_playing demo_env_204 demo_state) =
     Json 200 (JObj [(''is_playing'', JBool False), (''item'', JNull)])"
proof -
  have rf1: "refreshAccessTokenIfNeeded demo_env_no_body demo_state =
      refreshAccessTokenIfNeeded demo_env demo_state"
    by (rule refresh_cong) (simp_all add: demo_env_no_body_def)
  have rf2: "refreshAccessTokenIfNeeded demo_env_204 demo_state =
      refreshAccessTokenIfNeeded demo_env demo_state"
    by (rule refresh_cong) (simp_all add: demo_env_204_def)
  have h1: "getMyCurrentPlaybackState demo_env (api_accessToken demo_state) = Inr no_content_reply"
    by (simp add: demo_env_def)
  have h2: "getMyCurrentPlaybackState demo_env_no_body (api_accessToken demo_state) =
     Inr (ProviderData Absent None (Some 204))" by (simp add: demo_env_no_body_def)
  have h3: "getMyCurrentPlaybackState demo_env_204 (api_accessToken demo_state) =
     Inr (ProviderData (Has demo_body) (Some 204) (Some 204))" by (simp add: demo_env_204_def)
  have t: "now_timestamp demo_env = 5000300" by (simp add: demo_env_def)
  from now_playing_no_session [OF demo_refresh demo_token h1, of empty_body] t
  have a: "fst (now_playing demo_env demo_state) =
     Json 200 (JObj [(''is_playing'', JBool False), (''progress_ms'', JNum 0),
                     (''timestamp'', JNum 5000300), (''item'', JNull)])" by simp
  from now_playing_no_session [OF demo_refresh [folded rf1] demo_token h2, of empty_body]
  have b: "fst (now_playing demo_env_no_body demo_state) =
     Json 200 (JObj [(''is_playing'', JBool False), (''item'', JNull)])" by simp
  from now_playing_no_session [OF demo_refresh [folded rf2] demo_token h3, of empty_body]
  have c: "fst (now_playing demo_env_204 demo_state) =
     Json 200 (JObj [(''is_playing'', JBool False), (''item'', JNull)])" by simp
  from demo_token h1 h2 h3 a b c show ?thesis by simp
qed


text \<open>
  Claim C5. When no access token is held once \<^verbatim>\<open>refreshAccessTokenIfNeeded\<close> has
  returned, the handler answers with status 401 and \<^verbatim>\<open>auth_possible\<close> true exactly
  when the client id and the client secret are both set (and not empty). That is the case
  whenever no access token was held before and the refresh was skipped or was rejected.
\<close>

theorem now_playing_not_authenticated:
  "(\<not> truthy_str (api_accessToken (fst (snd (refreshAccessTokenIfNeeded e s)))) \<longrightarrow>
      fst (now_playing e s) =
        Json 401 (JObj [(''error'', JStr ''Not authenticated. Visit /login''),
                        (''auth_possible'',
                         JBool (truthy_str (SPOTIFY_CLIENT_ID e) \<and>
                                truthy_str (SPOTIFY_CLIENT_SECRET e)))])) \<and>
   (\<not> truthy_str (api_accessToken s) \<and>
    \<not> calls_refresh (snd (snd (refreshAccessTokenIfNeeded e s))) \<longrightarrow>
      \<not> truthy_str (api_accessToken (fst (snd (refreshAccessTokenIfNeeded e s))))) \<and>
   (\<not> truthy_str (api_accessToken s) \<and>
    refreshAccessToken e (REFRESH_TOKEN s) = Inl err \<longrightarrow>
      \<not> truthy_str (api_accessToken (fst (snd (refreshAccessTokenIfNeeded e s)))))"
proof -
  obtain r s1 ev1 where rf: "refreshAccessTokenIfNeeded e s = (r, s1, ev1)"
    by (cases "refreshAccessTokenIfNeeded e s")
  have auth: "authPossible e \<longleftrightarrow>
      truthy_str (SPOTIFY_CLIENT_ID e) \<and> truthy_str (SPOTIFY_CLIENT_SECRET e)"
    by (simp add: authPossible_def CLIENT_ID_def CLIENT_SECRET_def)
  have a: "fst (now_playing e s) =
        Json 401 (JObj [(''error'', JStr ''Not authenticated. Visit /login''),
                        (''auth_possible'',
                         JBool (truthy_str (SPOTIFY_CLIENT_ID e) \<and>
                                truthy_str (SPOTIFY_CLIENT_SECRET e)))])"
    if "\<not> truthy_str (api_accessToken s1)"
    using now_playing_unauthenticated [OF rf that] auth by (simp add: not_authenticated_def)
  have b: "api_accessToken s1 = api_accessToken s"
    if "\<not> calls_refresh ev1"
    using that rf
    by (auto simp: refreshAccessTokenIfNeeded_def refresh_try_def calls_refresh_def Let_def
        split: if_splits sum.splits nullable.splits)
  have c: "api_accessToken s1 = api_accessToken s"
    if "refreshAccessToken e (REFRESH_TOKEN s) = Inl err" for err
    using that rf
    by (auto simp: refreshAccessTokenIfNeeded_def refresh_try_def Let_def
        split: if_splits)
  from a b c rf show ?thesis by auto
qed

text \<open>
  Before any login, configured and not configured; and after a login whose access token
  was lost, where the refresh is rejected and the client id is empty.
\<close>

theorem now_playing_not_authenticated_witness:
  "\<not> truthy_str (api_accessToken (fst (snd (refreshAccessTokenIfNeeded demo_env initial_state)))) \<and>
   fst (now_playing demo_env initial_state) =
     Json 401 (JObj [(''error'', JStr ''Not authenticated. Visit /login''),
                     (''auth_possible'', JBool True)]) \<and>
   fst (now_playing (demo_env\<lparr>SPOTIFY_CLIENT_SECRET := None\<rparr>) initial_state) =
     Json 401 (JObj [(''error'', JStr ''Not authenticated. Visit /login''),
                     (''auth_possible'', JBool False)]) \<and>
   \<not> truthy_str (api_accessToken (demo_state\<lparr>api_accessToken := None\<rparr>)) \<and>
   refreshAccessToken (demo_env\<lparr>SPOTIFY_CLIENT_ID := Some []\<rparr>)
       (REFRESH_TOKEN (demo_state\<lparr>api_accessToken := None\<rparr>)) =
     Inl (JsError WebapiAuthenticationError ''invalid_grant'') \<and>
   fst (now_playing (demo_env\<lparr>SPOTIFY_CLIENT_ID := Some []\<rparr>)
          (demo_state\<lparr>api_accessToken := None\<rparr>)) =
     Json 401 (JObj [(''error'', JStr ''Not authenticated. Visit /login''),
                     (''auth_possible'', JBool False)])"
proof -
  have r1: "refreshAccessTokenIfNeeded demo_env initial_state = (Return (), initial_state, [])"
    by (simp add: refresh_skipped initial_state_def)
  have r2: "refreshAccessTokenIfNeeded (demo_env\<lparr>SPOTIFY_CLIENT_SECRET := None\<rparr>) initial_state
      = (Return (), initial_state, [])"
    by (simp add: refresh_skipped initial_state_def)
  have n3: "\<not> truthy_str (api_accessToken (demo_state\<lparr>api_accessToken := None\<rparr>))" by simp
  have f3: "refreshAccessToken (demo_env\<lparr>SPOTIFY_CLIENT_ID := Some []\<rparr>)
       (REFRESH_TOKEN (demo_state\<lparr>api_accessToken := None\<rparr>)) =
     Inl (JsError WebapiAuthenticationError ''invalid_grant'')"
    by (simp add: demo_env_def)
  have a0: "\<not> truthy_str (api_accessToken (fst (snd (refreshAccessTokenIfNeeded demo_env
      initial_state))))"
    using r1 by (simp add: initial_state_def)
  from now_playing_not_authenticated [of demo_env initial_state] a0
  have a: "fst (now_playing demo_env initial_state) =
     Json 401 (JObj [(''error'', JStr ''Not authenticated. Visit /login''),
                     (''auth_possible'', JBool True)])"
    by (simp add: demo_env_def)
  from now_playing_not_authenticated [of "demo_env\<lparr>SPOTIFY_CLIENT_SECRET := None\<rparr>" initial_state] r2
  have b: "fst (now_playing (demo_env\<lparr>SPOTIFY_CLIENT_SECRET := None\<rparr>) initial_state) =
     Json 401 (JObj [(''error'', JStr ''Not authenticated. Visit /login''),
                     (''auth_possible'', JBool False)])"
    by (simp add: initial_state_def demo_env_def)
  from now_playing_not_authenticated [of "demo_env\<lparr>SPOTIFY_CLIENT_ID := Some []\<rparr>"
      "demo_state\<lparr>api_accessToken := None\<rparr>"
      "JsError WebapiAuthenticationError ''invalid_grant''"] n3 f3
  have c: "fst (now_playing (demo_env\<lparr>SPOTIFY_CLIENT_ID := Some []\<rparr>)
          (demo_state\<lparr>api_accessToken := None\<rparr>)) =
     Json 401 (JObj [(''error'', JStr ''Not authenticated. Visit /login''),
                     (''auth_possible'', JBool False)])"
    by (simp add: demo_env_def)
  from a0 a b n3 f3 c show ?thesis by simp
qed

text \<open>
  Claim C6. With an access token held, when the provider's playback-state call rejects
  the handler answers with status 500, and \<^verbatim>\<open>details\<close> is the text of the error, which
  is never empty.
\<close>

theorem now_playing_provider_throws:
  assumes "refreshAccessTokenIfNeeded e s = (r, s1, ev1)"
    and "truthy_str (api_accessToken s1)"
    and "getMyCurrentPlaybackState e (api_accessToken s1) = Inl err"
  shows "fst (now_playing e s) =
           Json 500 (JObj [(''error'', JStr ''failed''), (''details'', JStr (String_err err))]) \<and>
         String_err err \<noteq> []"
  using now_playing_authenticated [OF assms(1,2)] assms(3)
  by (simp add: String_err_nonempty)

theorem now_playing_provider_throws_witness:
  "truthy_str (api_accessToken demo_state) \<and>
   getMyCurrentPlaybackState demo_env_down (api_accessToken demo_state) =
     Inl (JsError WebapiRegularError ''The access token expired'') \<and>
   fst (now_playing demo_env_down demo_state) =
     Json 500 (JObj [(''error'', JStr ''failed''),
                     (''details'', JStr ''WebapiRegularError: The access token expired'')])"
proof -
  have rf: "refreshAccessTokenIfNeeded demo_env_down demo_state =
     (Return (), demo_state,
      [Call_refreshAccessToken (Some ''AQCrefresh''),
       Console_error ''Failed to refresh token:''
         (JsError WebapiAuthenticationError ''invalid_grant'')])"
    by (simp add: refreshAccessTokenIfNeeded_def refresh_try_def demo_env_down_def demo_env_def
        demo_state_def Let_def)
  have h3: "getMyCurrentPlaybackState demo_env_down (api_accessToken demo_state) =
     Inl (JsError WebapiRegularError ''The access token expired'')"
    by (simp add: demo_env_down_def)
  from now_playing_provider_throws [OF rf demo_token h3] demo_token h3
  show ?thesis by (simp add: String_err_def)
qed

section \<open>The canvas of the answer\<close>

text \<open>
  Claim C7. In the answer to a request whose track has an id, the item's
  \<^verbatim>\<open>canvas_url\<close> comes from the first that matches: the file
  \<^verbatim>\<open>public/canvas/<id>.mp4\<close>, then the file \<^verbatim>\<open>public/canvas/<id>.webm\<close>, then the
  entry for the id in the object parsed from \<^verbatim>\<open>canvas.json\<close> (more generally, what
  \<^verbatim>\<open>mapping[id]\<close> reads, when it is truthy). A file wins over a mapping entry; with no
  file and no \<^verbatim>\<open>canvas.json\<close> the item has no \<^verbatim>\<open>canvas_url\<close>.
\<close>

theorem now_playing_canvas_precedence:
  assumes "refreshAccessTokenIfNeeded e s = (r, s1, ev1)"
    and "truthy_str (api_accessToken s1)"
    and "getMyCurrentPlaybackState e (api_accessToken s1) = Inr data"
    and "data_body data = Has body"
    and "data_status data \<noteq> Some 204"
    and "make_out e body = Inr out"
    and "pb_item body = Some it"
    and "track_id it = Has tid"
    and "tid \<noteq> []"
  shows "\<exists>out' item.
           fst (now_playing e s) = Json 200 out' \<and>
           own_prop out' ''item'' = Some item \<and>
           (existsSync e [''public'', ''canvas'', tid @ ''.mp4''] \<longrightarrow>
              own_prop item ''canvas_url'' = Some (JStr (''/canvas/'' @ tid @ ''.mp4''))) \<and>
           (\<not> existsSync e [''public'', ''canvas'', tid @ ''.mp4''] \<and>
            existsSync e [''public'', ''canvas'', tid @ ''.webm''] \<longrightarrow>
              own_prop item ''canvas_url'' = Some (JStr (''/canvas/'' @ tid @ ''.webm''))) \<and>
           (\<not> existsSync e [''public'', ''canvas'', tid @ ''.mp4''] \<and>
            \<not> existsSync e [''public'', ''canvas'', tid @ ''.webm''] \<and>
            existsSync e [''canvas.json''] \<and>
            readFileSync e [''canvas.json''] = Inr text \<and>
            JSON_parse e text = Inr (JObj kvs) \<and>
            map_of kvs tid = Some url \<and> truthy url \<longrightarrow>
              own_prop item ''canvas_url'' = Some url) \<and>
           (\<not> existsSync e [''public'', ''canvas'', tid @ ''.mp4''] \<and>
            \<not> existsSync e [''public'', ''canvas'', tid @ ''.webm''] \<and>
            existsSync e [''canvas.json''] \<and>
            readFileSync e [''canvas.json''] = Inr text \<and>
            JSON_parse e text = Inr mapping \<and>
            truthy mapping \<and> truthy (js_member e mapping tid) \<longrightarrow>
              own_prop item ''canvas_url'' = Some (js_member e mapping tid)) \<and>
           (\<not> existsSync e [''public'', ''canvas'', tid @ ''.mp4''] \<and>
            \<not> existsSync e [''public'', ''canvas'', tid @ ''.webm''] \<and>
            \<not> existsSync e [''canvas.json''] \<longrightarrow>
              own_prop item ''canvas_url'' = None)"
proof -
  from assms(7-9) have cid: "canvas_id body = Some tid"
    by (simp add: canvas_id_def)
  from now_playing_canvas_url [OF assms(1-6) cid] obtain out' item where
    res: "fst (now_playing e s) = Json 200 out'" and item: "own_prop out' ''item'' = Some item"
    and url: "own_prop item ''canvas_url'' = fst (canvas_lookup e tid)" by blast
  have "fst (canvas_lookup e tid) = Some (JStr (''/canvas/'' @ tid @ ''.mp4''))"
    if "existsSync e [''public'', ''canvas'', tid @ ''.mp4'']"
    using that by (simp add: canvas_lookup_def Let_def)
  moreover have "fst (canvas_lookup e tid) = Some (JStr (''/canvas/'' @ tid @ ''.webm''))"
    if "\<not> existsSync e [''public'', ''canvas'', tid @ ''.mp4'']"
      "existsSync e [''public'', ''canvas'', tid @ ''.webm'']"
    using that by (simp add: canvas_lookup_def Let_def)
  moreover have m: "fst (canvas_lookup e tid) = Some (js_member e m' tid)"
    if "\<not> existsSync e [''public'', ''canvas'', tid @ ''.mp4'']"
      "\<not> existsSync e [''public'', ''canvas'', tid @ ''.webm'']"
      "existsSync e [''canvas.json'']" "readFileSync e [''canvas.json''] = Inr text"
      "JSON_parse e text = Inr m'" "truthy m'" "truthy (js_member e m' tid)" for m'
    using that by (simp add: canvas_lookup_def Let_def)
  moreover have "fst (canvas_lookup e tid) = Some url"
    if "\<not> existsSync e [''public'', ''canvas'', tid @ ''.mp4'']"
      "\<not> existsSync e [''public'', ''canvas'', tid @ ''.webm'']"
      "existsSync e [''canvas.json'']" "readFileSync e [''canvas.json''] = Inr text"
      "JSON_parse e text = Inr (JObj kvs)" "map_of kvs tid = Some url" "truthy url"
  proof -
    from that(6) have "js_member e (JObj kvs) tid = url" by (simp add: js_member_def)
    with m [of "JObj kvs"] that show ?thesis by simp
  qed
  moreover have "fst (canvas_lookup e tid) = None"
    if "\<not> existsSync e [''public'', ''canvas'', tid @ ''.mp4'']"
      "\<not> existsSync e [''public'', ''canvas'', tid @ ''.webm'']"
      "\<not> existsSync e [''canvas.json'']"
    using that by (simp add: canvas_lookup_def Let_def)
  ultimately show ?thesis using res item url by (intro exI [of _ out'] exI [of _ item]) simp
qed

text \<open>
  The sample track is playing. With both files and a mapping entry on the disk the answer
  has the \<^verbatim>\<open>.mp4\<close> URL; with the \<^verbatim>\<open>.webm\<close> file and the entry, the \<^verbatim>\<open>.webm\<close> URL;
  with the entry alone, the entry; with none of them, no \<^verbatim>\<open>canvas_url\<close>.
\<close>

theorem now_playing_canvas_precedence_witness:
  "truthy_str (api_accessToken demo_state) \<and>
   make_out demo_env_files demo_body = Inr demo_out \<and>
   existsSync demo_env_files [''public'', ''canvas'', demo_tid @ ''.mp4''] \<and>
   existsSync demo_env_files [''public'', ''canvas'', demo_tid @ ''.webm''] \<and>
   existsSync demo_env_files [''canvas.json''] \<and>
   readFileSync demo_env_files [''canvas.json''] = Inr demo_json_text \<and>
   JSON_parse demo_env_files demo_json_text =
     Inr (JObj [(demo_tid, JStr ''https://cdn.example/loop.mp4'')]) \<and>
   fst (now_playing demo_env_files demo_state) =
     Json 200 (demo_out_with (JStr ''/canvas/4uLU6hMCjMI75M1A2tKUQC.mp4'')) \<and>
   own_prop (JObj (demo_item @ [(''canvas_url'', JStr ''/canvas/4uLU6hMCjMI75M1A2tKUQC.mp4'')]))
     ''canvas_url'' = Some (JStr ''/canvas/4uLU6hMCjMI75M1A2tKUQC.mp4'') \<and>
   fst (now_playing demo_env_webm demo_state) =
     Json 200 (demo_out_with (JStr ''/canvas/4uLU6hMCjMI75M1A2tKUQC.webm'')) \<and>
   own_prop (JObj (demo_item @ [(''canvas_url'', JStr ''/canvas/4uLU6hMCjMI75M1A2tKUQC.webm'')]))
     ''canvas_url'' = Some (JStr ''/canvas/4uLU6hMCjMI75M1A2tKUQC.webm'') \<and>
   fst (now_playing demo_env_mapping demo_state) =
     Json 200 (demo_out_with (JStr ''https://cdn.example/loop.mp4'')) \<and>
   own_prop (JObj (demo_item @ [(''canvas_url'', JStr ''https://cdn.example/loop.mp4'')]))
     ''canvas_url'' = Some (JStr ''https://cdn.example/loop.mp4'') \<and>
   fst (now_playing demo_env_playing demo_state) = Json 200 demo_out \<and>
   own_prop (JObj demo_item) ''canvas_url'' = None"
proof -
  let ?m = "JObj [(demo_tid, JStr ''https://cdn.example/loop.mp4'')]"
  note envs = demo_env_mapping_def demo_env_webm_def demo_env_files_def demo_env_playing_def
    demo_env_def
  have rf: "refreshAccessTokenIfNeeded e' demo_state =
      (Return (), demo_state,
       [Call_refreshAccessToken (Some ''AQCrefresh''),
        Console_error ''Failed to refresh token:''
          (JsError WebapiAuthenticationError ''invalid_grant'')])"
    if "e' = demo_env_files \<or> e' = demo_env_webm \<or> e' = demo_env_mapping \<or>
        e' = demo_env_playing" for e'
  proof -
    have "refreshAccessTokenIfNeeded e' demo_state = refreshAccessTokenIfNeeded demo_env demo_state"
      using that by (intro refresh_cong) (auto simp: envs)
    with demo_refresh show ?thesis by simp
  qed
  have pd: "getMyCurrentPlaybackState e' (api_accessToken demo_state) =
      Inr (ProviderData (Has demo_body) None (Some 200))"
    if "e' = demo_env_files \<or> e' = demo_env_webm \<or> e' = demo_env_mapping \<or>
        e' = demo_env_playing" for e'
    using that by (auto simp: envs)
  have b: "data_body (ProviderData (Has demo_body) None (Some 200)) = Has demo_body"
    and st: "data_status (ProviderData (Has demo_body) None (Some 200)) \<noteq> Some 204"
    by simp_all
  have mo: "make_out e' demo_body = Inr demo_out"
    if "e' = demo_env_files \<or> e' = demo_env_webm \<or> e' = demo_env_mapping \<or>
        e' = demo_env_playing" for e'
    using that
    by (auto simp: make_out_def item_literal_def demo_body_def demo_track_def demo_out_def
        demo_item_def demo_tid_def envs Let_def)
  have it: "pb_item demo_body = Some demo_track" "track_id demo_track = Has demo_tid"
    "demo_tid \<noteq> []"
    by (simp_all add: demo_body_def demo_track_def demo_tid_def)
  have f: "existsSync demo_env_files [''public'', ''canvas'', demo_tid @ ''.mp4'']"
    "existsSync demo_env_files [''public'', ''canvas'', demo_tid @ ''.webm'']"
    "existsSync demo_env_files [''canvas.json'']"
    "readFileSync demo_env_files [''canvas.json''] = Inr demo_json_text"
    "JSON_parse demo_env_files demo_json_text = Inr ?m"
    by (simp_all add: envs)
  have w: "\<not> existsSync demo_env_webm [''public'', ''canvas'', demo_tid @ ''.mp4'']"
    "existsSync demo_env_webm [''public'', ''canvas'', demo_tid @ ''.webm'']"
    by (simp_all add: envs)
  have m: "\<not> existsSync demo_env_mapping [''public'', ''canvas'', demo_tid @ ''.mp4'']"
    "\<not> existsSync demo_env_mapping [''public'', ''canvas'', demo_tid @ ''.webm'']"
    "existsSync demo_env_mapping [''canvas.json'']"
    "readFileSync demo_env_mapping [''canvas.json''] = Inr demo_json_text"
    "JSON_parse demo_env_mapping demo_json_text = Inr ?m"
    "map_of [(demo_tid, JStr ''https://cdn.example/loop.mp4'')] demo_tid =
       Some (JStr ''https://cdn.example/loop.mp4'')"
    "truthy (JStr ''https://cdn.example/loop.mp4'')"
    by (simp_all add: envs)
  have n: "\<not> existsSync demo_env_playing [''public'', ''canvas'', demo_tid @ ''.mp4'']"
    "\<not> existsSync demo_env_playing [''public'', ''canvas'', demo_tid @ ''.webm'']"
    "\<not> existsSync demo_env_playing [''canvas.json'']"
    by (simp_all add: envs)
  from now_playing_canvas_precedence
    [OF rf [of demo_env_files] demo_token pd [of demo_env_files] b st mo [of demo_env_files] it]
    f demo_files_run
  have a1: "own_prop (JObj (demo_item @
      [(''canvas_url'', JStr ''/canvas/4uLU6hMCjMI75M1A2tKUQC.mp4'')])) ''canvas_url'' =
      Some (JStr ''/canvas/4uLU6hMCjMI75M1A2tKUQC.mp4'')"
    by (auto simp: demo_out_with_def demo_tid_def)
  from now_playing_canvas_precedence
    [OF rf [of demo_env_webm] demo_token pd [of demo_env_webm] b st mo [of demo_env_webm] it]
    w demo_webm_run
  have a2: "own_prop (JObj (demo_item @
      [(''canvas_url'', JStr ''/canvas/4uLU6hMCjMI75M1A2tKUQC.webm'')])) ''canvas_url'' =
      Some (JStr ''/canvas/4uLU6hMCjMI75M1A2tKUQC.webm'')"
    by (auto simp: demo_out_with_def demo_tid_def)
  from now_playing_canvas_precedence
    [OF rf [of demo_env_mapping] demo_token pd [of demo_env_mapping] b st
      mo [of demo_env_mapping] it, of demo_json_text
      "[(demo_tid, JStr ''https://cdn.example/loop.mp4'')]" "JStr ''https://cdn.example/loop.mp4''"]
    m demo_mapping_run
  have a3: "own_prop (JObj (demo_item @
      [(''canvas_url'', JStr ''https://cdn.example/loop.mp4'')])) ''canvas_url'' =
      Some (JStr ''https://cdn.example/loop.mp4'')"
    by (auto simp: demo_out_with_def)
  have run4: "fst (now_playing demo_env_playing demo_state) = Json 200 demo_out"
    by (simp add: demo_run_defs)
  from now_playing_canvas_precedence
    [OF rf [of demo_env_playing] demo_token pd [of demo_env_playing] b st
      mo [of demo_env_playing] it]
    n run4
  have a4: "own_prop (JObj demo_item) ''canvas_url'' = None"
    by (auto simp: demo_out_def)
  from demo_token mo [of demo_env_files] f demo_files_run demo_webm_run demo_mapping_run run4
    a1 a2 a3 a4
  show ?thesis by simp
qed

text \<open>
  Claim C8. Whenever reading or parsing \<^verbatim>\<open>canvas.json\<close> throws during a request (the
  console line is written), the handler answers with status 200 and an object whose item
  has no \<^verbatim>\<open>canvas_url\<close>. And in an environment where \<^verbatim>\<open>canvas.json\<close> cannot be
  read or parsed, every request is answered as if the file were not there.
\<close>

theorem mapping_failure_not_propagated:
  "(mapping_failure_logged (snd (snd (now_playing e s))) \<longrightarrow>
      (\<exists>out item. fst (now_playing e s) = Json 200 out \<and>
                  own_prop out ''item'' = Some item \<and>
                  own_prop item ''canvas_url'' = None)) \<and>
   (mapping_fails e \<longrightarrow>
      fst (now_playing e s) =
        fst (now_playing (e\<lparr>existsSync := (existsSync e)([''canvas.json''] := False)\<rparr>) s))"
proof -
  obtain r s1 ev1 where rf: "refreshAccessTokenIfNeeded e s = (r, s1, ev1)"
    by (cases "refreshAccessTokenIfNeeded e s")
  with refresh_not_logged [of e s] have ev1: "\<not> mapping_failure_logged ev1" by simp
  have "\<exists>out item. fst (now_playing e s) = Json 200 out \<and>
                  own_prop out ''item'' = Some item \<and>
                  own_prop item ''canvas_url'' = None"
    if logged: "mapping_failure_logged (snd (snd (now_playing e s)))"
  proof (cases "truthy_str (api_accessToken s1)")
    case False
    from now_playing_unauthenticated [OF rf False] logged ev1 show ?thesis by simp
  next
    case True
    note np = now_playing_authenticated [OF rf True]
    show ?thesis
    proof (cases "getMyCurrentPlaybackState e (api_accessToken s1)")
      case (Inl err)
      with np logged ev1 show ?thesis by (simp add: mapping_failure_logged_def)
    next
      case (Inr data)
      show ?thesis
      proof (cases "data_body data")
        case Absent
        with np Inr logged ev1 show ?thesis by (simp add: mapping_failure_logged_def)
      next
        case IsNull
        with np Inr logged ev1 show ?thesis by (simp add: mapping_failure_logged_def)
      next
        case (Has body)
        show ?thesis
        proof (cases "data_status data = Some 204")
          case True
          with np Inr Has logged ev1 show ?thesis by (simp add: mapping_failure_logged_def)
        next
          case False
          show ?thesis
          proof (cases "make_out e body")
            case (Inl err)
            with np Inr Has False logged ev1 show ?thesis
              by (simp add: mapping_failure_logged_def)
          next
            case out: (Inr out)
            with np Inr Has False
            have res: "now_playing e s =
                (Json 200 (fst (augment e body out)), s1,
                 ev1 @ [Call_getMyCurrentPlaybackState (api_accessToken s1)]
                   @ snd (augment e body out))" by simp
            with logged ev1 have "mapping_failure_logged (snd (augment e body out))"
              by (simp add: mapping_failure_logged_def)
            from augment_logged [OF this] obtain tid
              where aug: "fst (augment e body out) = out" and tid: "canvas_id body = Some tid"
              by blast
            from make_out_item [OF out tid] obtain pre kvs where
              "out = JObj (pre @ [(''item'', JObj kvs)])" "map_of pre ''item'' = None"
              "map_of kvs ''canvas_url'' = None" by blast
            from canvas_url_of_plain [OF this] res aug show ?thesis by simp
          qed
        qed
      qed
    qed
  qed
  with now_playing_as_not_found [of e s] show ?thesis by blast
qed

text \<open>The sample track is playing and \<^verbatim>\<open>canvas.json\<close> is not JSON.\<close>

theorem mapping_failure_not_propagated_witness:
  "mapping_failure_logged (snd (snd (now_playing demo_env_broken demo_state))) \<and>
   mapping_fails demo_env_broken \<and>
   fst (now_playing demo_env_broken demo_state) = Json 200 demo_out \<and>
   own_prop demo_out ''item'' = Some (JObj demo_item) \<and>
   own_prop (JObj demo_item) ''canvas_url'' = None \<and>
   fst (now_playing demo_env_broken demo_state) =
     fst (now_playing
            (demo_env_broken\<lparr>existsSync :=
               (existsSync demo_env_broken)([''canvas.json''] := False)\<rparr>) demo_state)"
proof -
  have l: "mapping_failure_logged (snd (snd (now_playing demo_env_broken demo_state)))"
    by (simp add: demo_broken_run mapping_failure_logged_def)
  have f: "mapping_fails demo_env_broken"
    by (simp add: mapping_fails_def demo_env_broken_def demo_env_mapping_def
        demo_env_files_def demo_env_playing_def demo_env_def demo_json_text_def)
  from mapping_failure_not_propagated [of demo_env_broken demo_state] l f
  have ex: "\<exists>out item. fst (now_playing demo_env_broken demo_state) = Json 200 out \<and>
          own_prop out ''item'' = Some item \<and> own_prop item ''canvas_url'' = None"
    and e: "fst (now_playing demo_env_broken demo_state) =
     fst (now_playing
            (demo_env_broken\<lparr>existsSync :=
               (existsSync demo_env_broken)([''canvas.json''] := False)\<rparr>) demo_state)"
    by blast+
  have i: "own_prop demo_out ''item'' = Some (JObj demo_item)" by (simp add: demo_out_def)
  with ex have "own_prop (JObj demo_item) ''canvas_url'' = None"
    by (auto simp: demo_broken_run)
  with l f e i show ?thesis by (simp add: demo_broken_run)
qed

end
